theory Spec2Isabelle
  imports Complex_Main
begin

section \<open>JavaScript strings and numbers\<close>

text \<open>
  Strings of the program are modelled as \<^typ>\<open>string\<close>: a list of code units, here the
  units below 256. A JavaScript number is an IEEE double. The numbers that \<open>parseInt\<close>
  returns, other than \<open>NaN\<close>, are the integer-valued doubles and the two infinities: the
  type \<open>number\<close>, ordered as the doubles are. Where the rounding of doubles decides a
  result (the value read by \<open>parseInt\<close>, the floor in the limit of a row label), the
  arithmetic is modelled with the rounding function \<open>fl\<close> below. The geometry of the layout
  is modelled over the reals, without rounding.
\<close>

datatype number = MinusInfinity | Finite int | PlusInfinity

instantiation number :: linorder
begin

fun less_eq_number :: "number \<Rightarrow> number \<Rightarrow> bool" where
  "less_eq_number MinusInfinity y = True"
| "less_eq_number (Finite a) MinusInfinity = False"
| "less_eq_number (Finite a) (Finite b) = (a \<le> b)"
| "less_eq_number (Finite a) PlusInfinity = True"
| "less_eq_number PlusInfinity MinusInfinity = False"
| "less_eq_number PlusInfinity (Finite b) = False"
| "less_eq_number PlusInfinity PlusInfinity = True"

definition less_number :: "number \<Rightarrow> number \<Rightarrow> bool" where
  "less_number x y = (x \<le> y \<and> \<not> y \<le> x)"

instance
proof
  fix x y z :: number
  show "(x < y) = (x \<le> y \<and> \<not> y \<le> x)" by (simp add: less_number_def)
  show "x \<le> x" by (cases x) simp_all
  show "x \<le> y \<Longrightarrow> y \<le> z \<Longrightarrow> x \<le> z" by (cases x; cases y; cases z) simp_all
  show "x \<le> y \<Longrightarrow> y \<le> x \<Longrightarrow> x = y" by (cases x; cases y) simp_all
  show "x \<le> y \<or> y \<le> x" by (cases x; cases y) auto
qed

end

text \<open>
  The double nearest to a real number. \<open>pow2 e\<close> is the power \<open>2^e\<close> for an integer \<open>e\<close>;
  \<open>roundTiesToEven\<close> rounds to the nearest integer, a tie to the even one;
  \<open>ulp_exponent x\<close> is the exponent of the last of the 53 bits of a double at \<open>x\<close>, not
  below that of the subnormal doubles. \<open>fl x\<close> is the result of rounding \<open>x\<close> before the
  test for overflow: a result of magnitude \<open>2^1024\<close> or more stands for an infinity, and is
  tested for where it can occur. At a given number, \<open>fl\<close> is evaluated with the fact
  \<open>fl_eval\<close> below, from the two powers of 2 that enclose the number.
\<close>

definition pow2 :: "int \<Rightarrow> real" where
  "pow2 e = (if 0 \<le> e then 2 ^ nat e else 1 / 2 ^ nat (- e))"

definition roundTiesToEven :: "real \<Rightarrow> int" where
  "roundTiesToEven q =
     (let f = \<lfloor>q\<rfloor>; r = q - of_int f
      in if r < 1 / 2 then f else if 1 / 2 < r then f + 1 else if even f then f else f + 1)"

definition ulp_exponent :: "real \<Rightarrow> int" where
  "ulp_exponent x = max (\<lfloor>log 2 \<bar>x\<bar>\<rfloor> - 52) (- 1074)"

definition fl :: "real \<Rightarrow> real" where
  "fl x = (if x = 0 then 0
           else of_int (roundTiesToEven (x / pow2 (ulp_exponent x))) * pow2 (ulp_exponent x))"

text \<open>The number value of a mathematical integer: the nearest double, or an infinity.\<close>

definition toNumber :: "int \<Rightarrow> number" where
  "toNumber n =
     (if 2 ^ 1024 \<le> fl (of_int n) then PlusInfinity
      else if fl (of_int n) \<le> - (2 ^ 1024) then MinusInfinity
      else Finite \<lfloor>fl (of_int n)\<rfloor>)"

text \<open>The white space and line terminators that \<open>String.prototype.trim\<close> strips.\<close>

definition isWhiteSpace :: "char \<Rightarrow> bool" where
  "isWhiteSpace c =
     (c = CHR 0x09 \<or> c = CHR 0x0A \<or> c = CHR 0x0B \<or> c = CHR 0x0C \<or> c = CHR 0x0D \<or>
      c = CHR 0x20 \<or> c = CHR 0xA0)"

definition trim :: "string \<Rightarrow> string" where
  "trim s = rev (dropWhile isWhiteSpace (rev (dropWhile isWhiteSpace s)))"

text \<open>
  \<open>s.split(c)\<close> for a separator of one character: the pieces between the occurrences
  of \<open>c\<close>, so that the empty string gives one empty piece.
\<close>

fun split_on :: "char \<Rightarrow> string \<Rightarrow> string list" where
  "split_on c [] = [[]]"
| "split_on c (x # xs) =
     (if x = c then [] # split_on c xs
      else (case split_on c xs of
              [] \<Rightarrow> [[x]]
            | w # ws \<Rightarrow> (x # w) # ws))"

text \<open>\<open>s.startsWith(c)\<close> for a single character.\<close>

fun startsWith :: "string \<Rightarrow> char \<Rightarrow> bool" where
  "startsWith [] c = False"
| "startsWith (x # xs) c = (x = c)"

definition isDigit :: "char \<Rightarrow> bool" where
  "isDigit c = (48 \<le> (of_char c :: nat) \<and> (of_char c :: nat) \<le> 57)"

fun digitsValue :: "string \<Rightarrow> int \<Rightarrow> int" where
  "digitsValue [] acc = acc"
| "digitsValue (c # cs) acc = digitsValue cs (10 * acc + (int (of_char c) - 48))"

text \<open>
  \<open>parseInt(s, 10)\<close>: leading white space is skipped, one sign is read, then the longest
  run of decimal digits; what follows the digits is ignored. No digit gives \<open>NaN\<close>, which
  is \<open>None\<close>; otherwise the result is the number value of the signed integer that the
  digits denote.
\<close>

definition parseInt :: "string \<Rightarrow> number option" where
  "parseInt s =
     (let s1 = dropWhile isWhiteSpace s;
          sign = (case s1 of [] \<Rightarrow> 1 | c # r \<Rightarrow> if c = CHR ''-'' then - 1 else (1::int));
          s2 = (case s1 of [] \<Rightarrow> [] | c # r \<Rightarrow> if c = CHR ''+'' \<or> c = CHR ''-'' then r else s1);
          z = takeWhile isDigit s2
      in if z = [] then None else Some (toNumber (sign * digitsValue z 0)))"

section \<open>The intersection-data model (Home.tsx, class UpsetMatrixData)\<close>

text \<open>
  An entry \<open>{ set, value }\<close> of the intersection list. The fields are named
  \<open>set_key\<close> and \<open>value_num\<close>, since \<open>set\<close> is the list-to-set function of HOL.
\<close>

record intersection =
  set_key :: string
  value_num :: number

text \<open>
  The class's two private fields. A JavaScript \<open>Set\<close> keeps its members in insertion
  order without duplicates; it is the list \<open>sets\<close>, to which \<open>addSet\<close> appends a new name only.
\<close>

record UpsetMatrixData =
  sets :: "string list"
  intersections :: "intersection list"

definition newUpsetMatrixData :: UpsetMatrixData where
  "newUpsetMatrixData = \<lparr>sets = [], intersections = []\<rparr>"

definition getSets :: "UpsetMatrixData \<Rightarrow> string list" where
  "getSets m = sets m"

definition getIntersections :: "UpsetMatrixData \<Rightarrow> intersection list" where
  "getIntersections m = intersections m"

definition addSet :: "string \<Rightarrow> UpsetMatrixData \<Rightarrow> UpsetMatrixData" where
  "addSet name m = (if name \<in> set (sets m) then m else m\<lparr>sets := sets m @ [name]\<rparr>)"

definition addIntersection :: "string \<Rightarrow> number \<Rightarrow> UpsetMatrixData \<Rightarrow> UpsetMatrixData" where
  "addIntersection s v m =
     fold addSet (split_on CHR '','' s)
       (m\<lparr>intersections := intersections m @ [\<lparr>set_key = s, value_num = v\<rparr>]\<rparr>)"

text \<open>\<open>Math.max(x, ...xs)\<close> of at least one number.\<close>

definition Math_max :: "number \<Rightarrow> number list \<Rightarrow> number" where
  "Math_max x xs = fold max xs x"

definition getMaxIntersectionValue :: "UpsetMatrixData \<Rightarrow> number" where
  "getMaxIntersectionValue m =
     (case map value_num (intersections m) of
        [] \<Rightarrow> Finite 0
      | v # vs \<Rightarrow> Math_max v vs)"

definition isSetInIntersection :: "UpsetMatrixData \<Rightarrow> string \<Rightarrow> string \<Rightarrow> bool" where
  "isSetInIntersection m setName key = (setName \<in> set (split_on CHR '','' key))"

section \<open>The parser (Home.tsx, parseUpsetMatrix)\<close>

record UpsetMatrixFile =
  data :: UpsetMatrixData
  fileName :: string
  status :: int

text \<open>
  The file handed to the reader: its name, and the text the reader loads, \<open>None\<close> when
  the read fails (\<open>reader.onerror\<close>).
\<close>

record File =
  file_name :: string
  file_text :: "string option"

text \<open>
  The two rejections of the promise: \<open>Failed to read the file\<close> and
  \<open>Failed to parse UpsetMatrix file\<close>.
\<close>

datatype parse_error = FailedToRead | FailedToParse

text \<open>
  What the loop over the lines works on: the model under construction and the lines
  written by \<open>console.warn\<close>.
\<close>

record parse_state =
  pdata :: UpsetMatrixData
  console :: "string list"

text \<open>
  The callback of \<open>lines.forEach\<close>. \<open>Inl\<close> is the thrown \<open>Error\<close>, with its message.
\<close>

definition lineCallback :: "string \<Rightarrow> parse_state \<Rightarrow> string + parse_state" where
  "lineCallback line st =
     (if trim line = [] then Inr st
      else if startsWith line CHR ''#'' then Inr st
      else
        (let fields = split_on CHR 0x09 line in
         if length fields = 2 then
           (let setName = trim (fields ! 0);
                v = parseInt (trim (fields ! 1))
            in case v of
                 Some n \<Rightarrow> Inr (st\<lparr>pdata := addIntersection setName n (pdata st)\<rparr>)
               | None \<Rightarrow> Inr (st\<lparr>console := console st @ [''Invalid value in line: '' @ line]\<rparr>))
         else Inl (''Invalid line format: '' @ line)))"

text \<open>The loop stops at the first line whose callback throws.\<close>

fun forEach :: "string list \<Rightarrow> parse_state \<Rightarrow> string + parse_state" where
  "forEach [] st = Inr st"
| "forEach (l # ls) st =
     (case lineCallback l st of
        Inl e \<Rightarrow> Inl e
      | Inr st' \<Rightarrow> forEach ls st')"

text \<open>
  How the promise settles: rejected (\<open>Inl\<close>) when the read fails or the loop throws,
  resolved (\<open>Inr\<close>) with the file record otherwise.
\<close>

definition parseUpsetMatrix :: "File \<Rightarrow> parse_error + UpsetMatrixFile" where
  "parseUpsetMatrix f =
     (case file_text f of
        None \<Rightarrow> Inl FailedToRead
      | Some result \<Rightarrow>
          (case forEach (split_on CHR 0x0A result) \<lparr>pdata = newUpsetMatrixData, console = []\<rparr> of
             Inl e \<Rightarrow> Inl FailedToParse
           | Inr st \<Rightarrow> Inr \<lparr>data = pdata st, fileName = file_name f, status = 1\<rparr>))"

section \<open>The chart (UpsetPlotWrapper.tsx, class UpsetPlot)\<close>

subsection \<open>The drawn scene\<close>

text \<open>
  The value of an attribute or of a text node: a number, \<open>NaN\<close>, a string, or one of the
  two transforms the chart writes (\<open>translate(x, y)\<close> and \<open>rotate(a, x, y)\<close>), kept as
  numbers.
\<close>

datatype aval = Num real | NaN | Str string | Translate real real | Rotate real real real

text \<open>A computed number that may be \<open>NaN\<close> (\<open>None\<close>), as an attribute value.\<close>

fun numberOrNaN :: "real option \<Rightarrow> aval" where
  "numberOrNaN None = NaN"
| "numberOrNaN (Some r) = Num r"

text \<open>The text that d3 writes for a value: the number, or the name of the infinity.\<close>

fun valueText :: "number \<Rightarrow> aval" where
  "valueText (Finite n) = Num (real_of_int n)"
| "valueText PlusInfinity = Str ''Infinity''"
| "valueText MinusInfinity = Str ''-Infinity''"

text \<open>
  The datum that d3 binds to an element: none, a set name (set labels), an intersection
  entry (rows, bars, labels, event rectangles) or the object
  \<open>{ set, intersection, index }\<close> of a grid cell.
\<close>

datatype datum = NoDatum | SetDatum string | RowDatum intersection | CellDatum string intersection nat

text \<open>
  An element of the SVG tree: tag, class, bound datum, attributes and styles in the order
  they were first set, text content, children.
\<close>

datatype element =
  Element (tag: string) (cls: string) (bound: datum) (attrs: "(string \<times> aval) list")
    (styles: "(string \<times> string) list") (content: "aval option") (children: "element list")

text \<open>\<open>.attr(k, v)\<close> and \<open>.style(k, v)\<close>: a name already present keeps its place.\<close>

fun assign :: "string \<Rightarrow> 'v \<Rightarrow> (string \<times> 'v) list \<Rightarrow> (string \<times> 'v) list" where
  "assign k v [] = [(k, v)]"
| "assign k v (kv # kvs) = (if fst kv = k then (k, v) # kvs else kv # assign k v kvs)"

fun lookup :: "string \<Rightarrow> (string \<times> 'v) list \<Rightarrow> 'v option" where
  "lookup k [] = None"
| "lookup k (kv # kvs) = (if fst kv = k then Some (snd kv) else lookup k kvs)"

text \<open>
  \<open>selectAll('tag.class')\<close> from a list of roots: the matching descendants in document
  order (the roots stand for the children of the selection's node).
\<close>

fun selectAll :: "string \<Rightarrow> string \<Rightarrow> element \<Rightarrow> element list" where
  "selectAll t c (Element tg cl d as ss tx ch) =
     (if tg = t \<and> cl = c then [Element tg cl d as ss tx ch] else []) @
     concat (map (selectAll t c) ch)"

subsection \<open>The state of a chart\<close>

record Dimensions =
  dim_width :: real
  dim_height :: real
  dim_x :: real
  dim_y :: real
  dim_fontSize :: real

text \<open>
  The fields of the class. The click callback is a flag (registered or \<open>null\<close>) with the
  list of keys it was called with; \<open>svg\<close> holds the children of the chart's SVG node;
  \<open>getComputedTextLength\<close> is the browser's measure of a text element. The tooltip,
  which touches neither the scene nor the selection, is left out.
\<close>

record UpsetPlot =
  dimensions :: Dimensions
  upsetMatrix :: UpsetMatrixData
  selectedIntersections :: "string list"
  hoveredIntersection :: "string option"
  onIntersectionClick :: bool
  clickCalls :: "string list"
  svg :: "element list"
  getComputedTextLength :: "element \<Rightarrow> real"

subsection \<open>The layout computed by render\<close>

text \<open>
  The local constants of \<open>render\<close> (lines 250 to 287), under their names; the effective
  chart width and height, \<open>width\<close> and \<open>height\<close> in the source, are \<open>inner_width\<close> and
  \<open>inner_height\<close>. The ratios are those of \<open>componentRatios\<close>: 0.5 for the width of the
  dot matrix, 0.025 for the spacer. \<open>render\<close> computes the layout after its test for an
  empty model only, so the numbers of sets and of intersections it divides by are positive.
\<close>

record Layout =
  margin_top :: real
  margin_right :: real
  margin_bottom :: real
  margin_left :: real
  inner_width :: real
  inner_height :: real
  maxLabelLength :: real
  labelFontSize :: real
  label_height :: real
  dot_height :: real
  dot_width :: real
  spacer_width :: real
  bar_x :: real
  bar_y :: real
  bar_height :: real
  bar_width :: real
  cell_width :: real
  cell_height :: real
  maxValue :: number

text \<open>\<open>d3.max(sets, d => d.length) || 0\<close>.\<close>

definition d3_max_length :: "string list \<Rightarrow> real" where
  "d3_max_length names = real (fold max (map length names) 0)"

definition layout :: "UpsetPlot \<Rightarrow> Layout" where
  "layout p =
     (let names = getSets (upsetMatrix p);
          rows = getIntersections (upsetMatrix p);
          m_top = 30;
          m_right = max 60 (dim_width (dimensions p) * 0.1);
          m_bottom = 10;
          m_left = max 70 (dim_width (dimensions p) * 0.15);
          w = dim_width (dimensions p) - m_left - m_right;
          h = dim_height (dimensions p) - m_top - m_bottom;
          mll = d3_max_length names;
          lfs = min 12 (min (dim_fontSize (dimensions p)) (max 8 (14 - mll / 4)));
          lh = max (lfs * 1.5) (h * 0.08);
          dh = h - lh;
          dw = w * 0.5;
          sw = w * 0.025
      in \<lparr>margin_top = m_top, margin_right = m_right, margin_bottom = m_bottom,
          margin_left = m_left, inner_width = w, inner_height = h, maxLabelLength = mll,
          labelFontSize = lfs, label_height = lh, dot_height = dh, dot_width = dw,
          spacer_width = sw, bar_x = dw + sw, bar_y = lh, bar_height = dh,
          bar_width = w - dw - sw - 40,
          cell_width = dw / real (length names),
          cell_height = min 30 (dh / real (length rows)),
          maxValue = getMaxIntersectionValue (upsetMatrix p)\<rparr>)"

text \<open>
  \<open>d3.scaleLinear().domain([0, maxValue]).range([0, bar_width])\<close>, as d3 computes it:
  \<open>normalize\<close> maps a value \<open>x\<close> to \<open>x / maxValue\<close>, or to the constant 0.5 when the
  domain is the single point 0, and the interpolator maps \<open>t\<close> to
  \<open>0 * (1 - t) + bar_width * t\<close>. \<open>None\<close> is \<open>NaN\<close>: it is the result for an infinite value
  (an infinite \<open>t\<close>, or the quotient of two infinities), since zero times an infinity is
  \<open>NaN\<close>; a finite value over an infinite maximum gives 0.
\<close>

definition barScale :: "Layout \<Rightarrow> number \<Rightarrow> real option" where
  "barScale g v =
     (case maxValue g of
        Finite m \<Rightarrow>
          if m = 0 then Some (0.5 * bar_width g)
          else (case v of
                  Finite x \<Rightarrow> Some (real_of_int x / real_of_int m * bar_width g)
                | _ \<Rightarrow> None)
      | PlusInfinity \<Rightarrow> (case v of Finite x \<Rightarrow> Some 0 | _ \<Rightarrow> None)
      | MinusInfinity \<Rightarrow> None)"

subsection \<open>The fill callbacks of render\<close>

text \<open>Lines 348 to 352: the background of the grid cell of a set and an intersection row.\<close>

definition render_gridCell_fill :: "UpsetPlot \<Rightarrow> string \<Rightarrow> intersection \<Rightarrow> string" where
  "render_gridCell_fill p s d =
     (let isSelected = set_key d \<in> set (selectedIntersections p);
          isHovered = (hoveredIntersection p = Some (set_key d))
      in if isSelected then ''#FF9806'' else (if isHovered then ''#FFBD62'' else ''white''))"

text \<open>Lines 368 to 375: the membership circle.\<close>

definition render_circle_fill :: "UpsetPlot \<Rightarrow> string \<Rightarrow> intersection \<Rightarrow> string" where
  "render_circle_fill p s d =
     (let isSelected = set_key d \<in> set (selectedIntersections p);
          isHovered = (hoveredIntersection p = Some (set_key d));
          isIncluded = isSetInIntersection (upsetMatrix p) s (set_key d)
      in if isSelected then (if isIncluded then ''#FF6F00'' else ''#807A79'')
         else (if isIncluded then (if isHovered then ''#FF9C46'' else ''#030202'') else ''#807A79''))"

text \<open>Lines 389 to 393: the value bar.\<close>

definition render_valueBar_fill :: "UpsetPlot \<Rightarrow> intersection \<Rightarrow> string" where
  "render_valueBar_fill p d =
     (let isSelected = set_key d \<in> set (selectedIntersections p);
          isHovered = (hoveredIntersection p = Some (set_key d))
      in if isSelected then ''#FF6F00'' else (if isHovered then ''#FF9C46'' else ''#030202''))"

subsection \<open>The elements render draws\<close>

definition setLabel :: "UpsetPlot \<Rightarrow> Layout \<Rightarrow> nat \<times> string \<Rightarrow> element" where
  "setLabel p g = (\<lambda>(i, d).
     (let a0 = [(''x'', Num (real i * cell_width g + cell_width g / 2)),
                (''y'', Num (label_height g - 5)),
                (''text-anchor'', Str ''middle''),
                (''font-size'', Num (labelFontSize g))];
          a1 = (if cell_width g < 20 \<and> length (getSets (upsetMatrix p)) > 5
                then assign ''y'' (Num (label_height g - 2))
                       (assign ''transform''
                          (Rotate (- 45) (real i * cell_width g + cell_width g / 2) (label_height g - 5))
                          (assign ''text-anchor'' (Str ''end'') a0))
                else a0)
      in Element ''text'' ''setLabel'' (SetDatum d) a1 [] (Some (Str d)) []))"

text \<open>
  The grid cells, circles and bars take their fill callback as an argument; \<open>render\<close>
  passes the three callbacks above.
\<close>

definition gridCell_rect ::
  "(string \<Rightarrow> intersection \<Rightarrow> string) \<Rightarrow> Layout \<Rightarrow> nat \<Rightarrow> intersection \<Rightarrow> nat \<times> string \<Rightarrow> element" where
  "gridCell_rect fill g i d = (\<lambda>(j, s).
     Element ''rect'' ''gridCell'' (CellDatum s d i)
       [(''x'', Num (real j * cell_width g)), (''y'', Num 0),
        (''width'', Num (cell_width g)), (''height'', Num (cell_height g))]
       [(''fill'', fill s d), (''stroke'', ''black'')] None [])"

definition gridCell_circle ::
  "(string \<Rightarrow> intersection \<Rightarrow> string) \<Rightarrow> Layout \<Rightarrow> nat \<Rightarrow> intersection \<Rightarrow> nat \<times> string \<Rightarrow> element" where
  "gridCell_circle fill g i d = (\<lambda>(j, s).
     Element ''circle'' ''gridCell'' (CellDatum s d i)
       [(''cx'', Num (real j * cell_width g + cell_width g / 2)),
        (''cy'', Num (cell_height g / 2)),
        (''r'', Num (min (cell_height g) (cell_width g) / 3))]
       [(''fill'', fill s d), (''stroke'', ''black'')] None [])"

definition gridRow ::
  "(string \<Rightarrow> intersection \<Rightarrow> string) \<Rightarrow> (string \<Rightarrow> intersection \<Rightarrow> string) \<Rightarrow>
   string list \<Rightarrow> Layout \<Rightarrow> nat \<times> intersection \<Rightarrow> element" where
  "gridRow rectFill circleFill names g = (\<lambda>(i, d).
     Element ''g'' ''gridRow'' (RowDatum d)
       [(''transform'', Translate 0 (label_height g + real i * cell_height g))] [] None
       (map (gridCell_rect rectFill g i d) (enumerate 0 names) @
        map (gridCell_circle circleFill g i d) (enumerate 0 names)))"

definition valueBar :: "(intersection \<Rightarrow> string) \<Rightarrow> Layout \<Rightarrow> nat \<times> intersection \<Rightarrow> element" where
  "valueBar fill g = (\<lambda>(i, d).
     Element ''rect'' ''valueBar'' (RowDatum d)
       [(''y'', Num (bar_y g + real i * cell_height g + cell_height g * 0.1)),
        (''x'', Num (bar_x g)),
        (''width'', numberOrNaN (barScale g (value_num d))),
        (''height'', Num (cell_height g * 0.8))]
       [(''fill'', fill d)] None [])"

text \<open>
  The value label at the end of a bar; it moves inside the bar, in white, when the
  measured text would pass the chart width (a comparison with \<open>NaN\<close> is false).
\<close>

definition barLabel :: "UpsetPlot \<Rightarrow> Layout \<Rightarrow> nat \<times> intersection \<Rightarrow> element" where
  "barLabel p g = (\<lambda>(i, d).
     (let e = Element ''text'' ''barLabel'' (RowDatum d)
                [(''x'', numberOrNaN (map_option (\<lambda>w. bar_x g + w + 5) (barScale g (value_num d)))),
                 (''y'', Num (bar_y g + real i * cell_height g + cell_height g / 2)),
                 (''dominant-baseline'', Str ''middle''),
                 (''font-size'', Num (min 10 (labelFontSize g * 0.8)))]
                [] (Some (valueText (value_num d))) [];
          textWidth = getComputedTextLength p e
      in case barScale g (value_num d) of
           None \<Rightarrow> e
         | Some w \<Rightarrow>
             if bar_x g + w + textWidth + 10 > inner_width g
             then Element ''text'' ''barLabel'' (RowDatum d)
                    (assign ''text-anchor'' (Str ''end'')
                       (assign ''x'' (Num (bar_x g + w - textWidth - 5)) (attrs e)))
                    [(''fill'', ''white'')] (content e) []
             else e))"

text \<open>
  Lines 444 to 449, the text of a row label. The limit \<open>maxDisplayLength\<close> is
  \<open>Math.floor(margin.left / (labelFontSize * 0.6)) - 2\<close>; the floor makes the rounding of
  doubles visible, so the margin, the font size and the limit are computed here as the
  source computes them, every operation rounded by \<open>fl\<close> and \<open>0.15\<close> and \<open>0.6\<close> read as the
  doubles nearest to them. The width and the font size of the chart are given as reals
  (the doubles the chart was created with; the two zeros of the doubles are one here).
\<close>

definition marginLeft_double :: "UpsetPlot \<Rightarrow> real" where
  "marginLeft_double p = max 70 (fl (dim_width (dimensions p) * fl 0.15))"

definition labelFontSize_double :: "UpsetPlot \<Rightarrow> real" where
  "labelFontSize_double p =
     min 12 (min (dim_fontSize (dimensions p))
       (max 8 (fl (14 - fl (d3_max_length (getSets (upsetMatrix p)) / 4)))))"

text \<open>
  A divisor that is zero gives an infinity with the sign of the font size, and so does a
  quotient beyond the doubles; the floor of an infinity, and that less 2, is the infinity.
\<close>

definition maxDisplayLength :: "UpsetPlot \<Rightarrow> number" where
  "maxDisplayLength p =
     (let divisor = fl (labelFontSize_double p * fl 0.6)
      in if divisor = 0
         then (if labelFontSize_double p < 0 then MinusInfinity else PlusInfinity)
         else
           (let q = fl (marginLeft_double p / divisor)
            in if 2 ^ 1024 \<le> q then PlusInfinity
               else if q \<le> - (2 ^ 1024) then MinusInfinity
               else Finite \<lfloor>fl (of_int \<lfloor>q\<rfloor> - 2)\<rfloor>))"

text \<open>
  \<open>d.set.length > maxDisplayLength ? d.set.substring(0, maxDisplayLength - 3) + '...' : d.set\<close>.
  \<open>substring(0, n)\<close> takes no character when \<open>n\<close> is negative, and every length exceeds
  \<open>-Infinity\<close>. When the length exceeds a finite limit, the limit less 3 is exact or
  negative.
\<close>

definition intersectionLabel_text :: "number \<Rightarrow> intersection \<Rightarrow> string" where
  "intersectionLabel_text limit d =
     (case limit of
        PlusInfinity \<Rightarrow> set_key d
      | MinusInfinity \<Rightarrow> ''...''
      | Finite n \<Rightarrow>
          if int (length (set_key d)) > n then take (nat (n - 3)) (set_key d) @ ''...''
          else set_key d)"

definition intersectionLabel :: "UpsetPlot \<Rightarrow> Layout \<Rightarrow> nat \<times> intersection \<Rightarrow> element" where
  "intersectionLabel p g = (\<lambda>(i, d).
     Element ''text'' ''intersectionLabel'' (RowDatum d)
       [(''x'', Num (- 5)),
        (''y'', Num (label_height g + real i * cell_height g + cell_height g / 2)),
        (''text-anchor'', Str ''end''),
        (''dominant-baseline'', Str ''middle''),
        (''font-size'', Num (min 10 (labelFontSize g * 0.8)))]
       [] (Some (Str (intersectionLabel_text (maxDisplayLength p) d)))
       [Element ''title'' [] (RowDatum d) [] [] (Some (Str (set_key d))) []])"

definition eventRect :: "Layout \<Rightarrow> nat \<times> intersection \<Rightarrow> element" where
  "eventRect g = (\<lambda>(i, d).
     Element ''rect'' ''eventRect'' (RowDatum d)
       [(''y'', Num (label_height g + real i * cell_height g)), (''x'', Num 0),
        (''width'', Num (inner_width g)), (''height'', Num (cell_height g))]
       [(''fill'', ''transparent'')] None [])"

text \<open>
  The children of the container group, in the order render appends them. The ticks and
  the line that \<open>d3.axisTop\<close> draws inside the axis group are not modelled.
\<close>

definition drawing ::
  "(string \<Rightarrow> intersection \<Rightarrow> string) \<Rightarrow> (string \<Rightarrow> intersection \<Rightarrow> string) \<Rightarrow>
   (intersection \<Rightarrow> string) \<Rightarrow> UpsetPlot \<Rightarrow> Layout \<Rightarrow> element list" where
  "drawing rectFill circleFill barFill p g =
     (let names = getSets (upsetMatrix p);
          rows = getIntersections (upsetMatrix p)
      in [Element ''rect'' [] NoDatum
            [(''x'', Num 0), (''y'', Num (label_height g)),
             (''width'', Num (dot_width g)), (''height'', Num (dot_height g))]
            [(''stroke'', ''black''), (''stroke-width'', ''1px''), (''fill'', ''none'')] None []] @
         map (setLabel p g) (enumerate 0 names) @
         map (gridRow rectFill circleFill names g) (enumerate 0 rows) @
         map (valueBar barFill g) (enumerate 0 rows) @
         map (barLabel p g) (enumerate 0 rows) @
         [Element ''g'' ''x-axis'' NoDatum [(''transform'', Translate 0 (bar_y g))] [] None []] @
         map (intersectionLabel p g) (enumerate 0 rows) @
         map (eventRect g) (enumerate 0 rows))"

text \<open>
  \<open>render\<close>: the SVG is cleared; nothing is drawn for a model without sets or without
  intersections; otherwise the container group is drawn, whatever the layout is.
\<close>

definition render :: "UpsetPlot \<Rightarrow> UpsetPlot" where
  "render p =
     (if getSets (upsetMatrix p) = [] \<or> getIntersections (upsetMatrix p) = []
      then p\<lparr>svg := []\<rparr>
      else p\<lparr>svg := [Element ''g'' [] NoDatum
               [(''transform'', Translate (margin_left (layout p)) (margin_top (layout p)))]
               [] None
               (drawing (render_gridCell_fill p) (render_circle_fill p) (render_valueBar_fill p)
                  p (layout p))]\<rparr>)"

definition plot :: "UpsetPlot \<Rightarrow> UpsetPlot" where
  "plot p = render p"

definition setSelectedIntersections :: "string list \<Rightarrow> UpsetPlot \<Rightarrow> UpsetPlot" where
  "setSelectedIntersections ks p = render (p\<lparr>selectedIntersections := ks\<rparr>)"

definition setOnIntersectionClick :: "UpsetPlot \<Rightarrow> UpsetPlot" where
  "setOnIntersectionClick p = p\<lparr>onIntersectionClick := True\<rparr>"

subsection \<open>The recolouring path (updateHighlighting)\<close>

text \<open>
  What a fill callback of \<open>updateHighlighting\<close> reads from the datum \<open>d\<close> of the element it
  is called on. The outer \<open>None\<close> is the \<open>TypeError\<close> of reading a property of
  \<open>undefined\<close>, the inner one the value \<open>undefined\<close>.
\<close>

fun d_intersection_set :: "datum \<Rightarrow> string option option" where
  "d_intersection_set (CellDatum s d i) = Some (Some (set_key d))"
| "d_intersection_set _ = None"

fun d_set :: "datum \<Rightarrow> string option option" where
  "d_set (CellDatum s d i) = Some (Some s)"
| "d_set (RowDatum d) = Some (Some (set_key d))"
| "d_set (SetDatum s) = Some None"
| "d_set NoDatum = None"

text \<open>\<open>selectedIntersections.includes(v)\<close> and \<open>hoveredIntersection === v\<close>.\<close>

fun array_includes :: "string list \<Rightarrow> string option \<Rightarrow> bool" where
  "array_includes ks None = False"
| "array_includes ks (Some k) = (k \<in> set ks)"

fun strict_eq :: "string option \<Rightarrow> string option \<Rightarrow> bool" where
  "strict_eq h None = False"
| "strict_eq h (Some k) = (h = Some k)"

text \<open>
  \<open>isSetInIntersection\<close> called on what the callback read: splitting \<open>undefined\<close> throws,
  and \<open>undefined\<close> is no member of the split.
\<close>

fun isSetInIntersection_js :: "UpsetMatrixData \<Rightarrow> string option \<Rightarrow> string option \<Rightarrow> bool option" where
  "isSetInIntersection_js m s None = None"
| "isSetInIntersection_js m None (Some key) = Some False"
| "isSetInIntersection_js m (Some s) (Some key) = Some (isSetInIntersection m s key)"

text \<open>Lines 530 to 534.\<close>

definition update_gridCell_fill :: "UpsetPlot \<Rightarrow> datum \<Rightarrow> string option" where
  "update_gridCell_fill p d =
     (case d_intersection_set d of
        None \<Rightarrow> None
      | Some k \<Rightarrow>
          (let isSelected = array_includes (selectedIntersections p) k;
               isHovered = strict_eq (hoveredIntersection p) k
           in Some (if isSelected then ''#FF9806'' else (if isHovered then ''#FFBD62'' else ''white''))))"

text \<open>Lines 538 to 545.\<close>

definition update_circle_fill :: "UpsetPlot \<Rightarrow> datum \<Rightarrow> string option" where
  "update_circle_fill p d =
     (case d_intersection_set d of
        None \<Rightarrow> None
      | Some k \<Rightarrow>
          (case d_set d of
             None \<Rightarrow> None
           | Some s \<Rightarrow>
               (case isSetInIntersection_js (upsetMatrix p) s k of
                  None \<Rightarrow> None
                | Some isIncluded \<Rightarrow>
                    (let isSelected = array_includes (selectedIntersections p) k;
                         isHovered = strict_eq (hoveredIntersection p) k
                     in Some (if isSelected then (if isIncluded then ''#FF6F00'' else ''#807A79'')
                              else (if isIncluded
                                    then (if isHovered then ''#FF9C46'' else ''#030202'')
                                    else ''#807A79''))))))"

text \<open>Lines 549 to 553.\<close>

definition update_valueBar_fill :: "UpsetPlot \<Rightarrow> datum \<Rightarrow> string option" where
  "update_valueBar_fill p d =
     (case d_set d of
        None \<Rightarrow> None
      | Some k \<Rightarrow>
          (let isSelected = array_includes (selectedIntersections p) k;
               isHovered = strict_eq (hoveredIntersection p) k
           in Some (if isSelected then ''#FF6F00'' else (if isHovered then ''#FF9C46'' else ''#030202''))))"

text \<open>
  \<open>selectAll('tag.class').style('fill', f)\<close> below one element: every matching descendant
  (and the element itself) gets the fill that \<open>f\<close> computes from its datum; \<open>None\<close> when a
  callback throws.
\<close>

fun style_fill :: "string \<Rightarrow> string \<Rightarrow> (datum \<Rightarrow> string option) \<Rightarrow> element \<Rightarrow> element option" where
  "style_fill t c f (Element tg cl d as ss tx ch) =
     (case (if tg = t \<and> cl = c then map_option (\<lambda>v. assign ''fill'' v ss) (f d) else Some ss) of
        None \<Rightarrow> None
      | Some ss' \<Rightarrow>
          (case those (map (style_fill t c f) ch) of
             None \<Rightarrow> None
           | Some ch' \<Rightarrow> Some (Element tg cl d as ss' tx ch')))"

definition updateHighlighting :: "UpsetPlot \<Rightarrow> UpsetPlot option" where
  "updateHighlighting p =
     (case those (map (style_fill ''rect'' ''gridCell'' (update_gridCell_fill p)) (svg p)) of
        None \<Rightarrow> None
      | Some s1 \<Rightarrow>
          (case those (map (style_fill ''circle'' ''gridCell'' (update_circle_fill p)) s1) of
             None \<Rightarrow> None
           | Some s2 \<Rightarrow>
               (case those (map (style_fill ''rect'' ''valueBar'' (update_valueBar_fill p)) s2) of
                  None \<Rightarrow> None
                | Some s3 \<Rightarrow> Some (p\<lparr>svg := s3\<rparr>))))"

subsection \<open>The event handlers of a row\<close>

text \<open>
  The handlers of the event rectangle bound to the entry with key \<open>k\<close>. A click calls the
  registered callback and changes nothing else, or toggles the key and draws again.
\<close>

definition click :: "string \<Rightarrow> UpsetPlot \<Rightarrow> UpsetPlot" where
  "click k p =
     (if onIntersectionClick p then p\<lparr>clickCalls := clickCalls p @ [k]\<rparr>
      else render
        (if k \<in> set (selectedIntersections p)
         then p\<lparr>selectedIntersections := filter (\<lambda>s. s \<noteq> k) (selectedIntersections p)\<rparr>
         else p\<lparr>selectedIntersections := selectedIntersections p @ [k]\<rparr>))"

definition mouseover :: "string \<Rightarrow> UpsetPlot \<Rightarrow> UpsetPlot option" where
  "mouseover k p =
     (let previousHover = hoveredIntersection p;
          p1 = p\<lparr>hoveredIntersection := Some k\<rparr>
      in if previousHover \<noteq> hoveredIntersection p1 then updateHighlighting p1 else Some p1)"

definition mouseleave :: "UpsetPlot \<Rightarrow> UpsetPlot option" where
  "mouseleave p = updateHighlighting (p\<lparr>hoveredIntersection := None\<rparr>)"

section \<open>Facts about the rounding of doubles\<close>

lemma pow2_powr: "pow2 e = 2 powr of_int e"
proof (cases "0 \<le> e")
  case True
  have "(2::real) ^ nat e = 2 powr real (nat e)" by (simp add: powr_realpow)
  also from True have "real (nat e) = of_int e" by simp
  finally show ?thesis using True by (simp only: pow2_def if_True)
next
  case False
  have "(2::real) ^ nat (- e) = 2 powr real (nat (- e))" by (simp add: powr_realpow)
  also from False have "real (nat (- e)) = - of_int e" by simp
  finally have "1 / (2::real) ^ nat (- e) = 2 powr of_int e"
    by (simp add: powr_minus divide_inverse)
  with False show ?thesis by (simp only: pow2_def if_False)
qed

lemma pow2_pos: "0 < pow2 e"
  by (simp add: pow2_def)

lemma floor_log2_eq:
  assumes "pow2 k \<le> \<bar>x\<bar>" and "\<bar>x\<bar> < pow2 (k + 1)"
  shows "\<lfloor>log 2 \<bar>x\<bar>\<rfloor> = k"
proof -
  from assms(1) pow2_pos [of k] have pos: "0 < \<bar>x\<bar>" by linarith
  from assms have "2 powr of_int k \<le> \<bar>x\<bar>" "\<bar>x\<bar> < 2 powr (of_int k + 1)"
    by (simp_all add: pow2_powr)
  with pos show ?thesis
    by (simp add: floor_log_eq_powr_iff)
qed

text \<open>The rounding of a number whose binade is known, for evaluation.\<close>

lemma fl_eval:
  assumes "pow2 k \<le> \<bar>x\<bar>" and "\<bar>x\<bar> < pow2 (k + 1)" and "- 1022 \<le> k"
  shows "fl x = of_int (roundTiesToEven (x / pow2 (k - 52))) * pow2 (k - 52)"
proof -
  from assms(1) pow2_pos [of k] have "x \<noteq> 0" by auto
  moreover from floor_log2_eq [OF assms(1,2)] assms(3) have "ulp_exponent x = k - 52"
    by (simp add: ulp_exponent_def)
  ultimately show ?thesis by (simp add: fl_def)
qed


lemma roundTiesToEven_of_int: "roundTiesToEven (of_int m) = m"
  by (simp add: roundTiesToEven_def)

lemma roundTiesToEven_nonneg: "0 \<le> q \<Longrightarrow> 0 \<le> roundTiesToEven q"
  by (simp add: roundTiesToEven_def Let_def)

lemma fl_nonneg: "0 \<le> x \<Longrightarrow> 0 \<le> fl x"
  using pow2_pos [of "ulp_exponent x"]
  by (simp add: fl_def roundTiesToEven_nonneg less_imp_le)

text \<open>Every integer of magnitude up to \<open>2^53\<close> is a double.\<close>

lemma fl_of_int:
  assumes "\<bar>n\<bar> \<le> 2 ^ 53"
  shows "fl (of_int n) = of_int n"
proof (cases "n = 0")
  case True
  then show ?thesis by (simp add: fl_def)
next
  case False
  define k where "k = \<lfloor>log 2 \<bar>real_of_int n\<bar>\<rfloor>"
  from False have pos: "0 < \<bar>real_of_int n\<bar>" by simp
  from k_def pos have b: "2 powr of_int k \<le> \<bar>real_of_int n\<bar>"
    "\<bar>real_of_int n\<bar> < 2 powr (of_int k + 1)"
    using floor_log_eq_powr_iff [of "\<bar>real_of_int n\<bar>" 2 k] by simp_all
  from False have "1 \<le> \<bar>real_of_int n\<bar>"
    by (metis abs_ge_zero abs_of_nonneg of_int_abs of_int_le_iff of_int_1 zero_less_abs_iff int_one_le_iff_zero_less)
  then have "0 \<le> log 2 \<bar>real_of_int n\<bar>" by simp
  then have k0: "0 \<le> k" unfolding k_def by simp
  from assms have le: "\<bar>real_of_int n\<bar> \<le> 2 ^ 53"
    by (metis of_int_abs of_int_le_iff of_int_numeral of_int_power)
  have k53: "k \<le> 53"
  proof (rule ccontr)
    assume "\<not> k \<le> 53"
    then have "54 \<le> k" by simp
    then have "(2::real) powr of_int 54 \<le> 2 powr of_int k" by (intro powr_mono) simp_all
    then have "pow2 54 \<le> 2 powr of_int k" by (simp only: pow2_powr)
    with b(1) le show False by (simp add: pow2_def)
  qed
  have e: "ulp_exponent (of_int n) = k - 52"
    using k0 by (simp add: ulp_exponent_def k_def [symmetric])
  show ?thesis
  proof (cases "k \<le> 52")
    case True
    define j where "j = nat (52 - k)"
    from True k0 have p: "pow2 (k - 52) = 1 / 2 ^ j"
      by (auto simp: pow2_def j_def)
    have "real_of_int n / pow2 (k - 52) = of_int (n * 2 ^ j)"
      by (simp add: p)
    then have "roundTiesToEven (real_of_int n / pow2 (k - 52)) = n * 2 ^ j"
      by (simp only: roundTiesToEven_of_int)
    with False show ?thesis
      by (simp add: fl_def e p)
  next
    case False
    with k53 have k: "k = 53" by simp
    from b(1) have "pow2 k \<le> \<bar>real_of_int n\<bar>" by (simp only: pow2_powr)
    with k le have "\<bar>real_of_int n\<bar> = 2 ^ 53" by (simp add: pow2_def)
    then have "\<bar>n\<bar> = 2 ^ 53"
      by (metis of_int_abs of_int_eq_iff of_int_numeral of_int_power)
    then have "n = 2 ^ 53 \<or> n = - (2 ^ 53)" by auto
    then show ?thesis
      by (auto simp: fl_def e k pow2_def roundTiesToEven_def)
  qed
qed

lemma toNumber_exact: "\<bar>n\<bar> \<le> 2 ^ 53 \<Longrightarrow> toNumber n = Finite n"
proof -
  assume a: "\<bar>n\<bar> \<le> 2 ^ 53"
  then have "\<bar>real_of_int n\<bar> \<le> 2 ^ 53"
    by (metis of_int_abs of_int_le_iff of_int_numeral of_int_power)
  then have "\<not> 2 ^ 1024 \<le> real_of_int n" "\<not> real_of_int n \<le> - (2 ^ 1024)"
    by auto
  then show ?thesis by (simp add: toNumber_def fl_of_int [OF a])
qed

lemma toNumber_nonneg: "0 \<le> n \<Longrightarrow> Finite 0 \<le> toNumber n"
proof -
  assume "0 \<le> n"
  then have "0 \<le> fl (of_int n)" by (simp add: fl_nonneg)
  then show ?thesis by (simp add: toNumber_def)
qed

section \<open>Facts about the string functions\<close>

lemma split_on_not_Nil: "split_on c s \<noteq> []"
  by (induction s) (auto split: list.splits)

section \<open>Claims about the parser\<close>

lemma lineCallback_throws_iff:
  "(\<exists>e. lineCallback line st = Inl e) \<longleftrightarrow>
     (trim line \<noteq> [] \<and> \<not> startsWith line CHR ''#'' \<and> length (split_on CHR 0x09 line) \<noteq> 2)"
  by (simp add: lineCallback_def Let_def split: option.splits)

lemma forEach_throws_iff:
  "(\<exists>e. forEach ls st = Inl e) \<longleftrightarrow>
     (\<exists>line \<in> set ls. trim line \<noteq> [] \<and> \<not> startsWith line CHR ''#'' \<and>
        length (split_on CHR 0x09 line) \<noteq> 2)"
proof (induction ls arbitrary: st)
  case Nil
  show ?case by simp
next
  case (Cons l ls)
  show ?case
  proof (cases "lineCallback l st")
    case (Inl e)
    then have "\<exists>e. lineCallback l st = Inl e" by blast
    then have "trim l \<noteq> [] \<and> \<not> startsWith l CHR ''#'' \<and> length (split_on CHR 0x09 l) \<noteq> 2"
      using lineCallback_throws_iff [of l st] by blast
    with Inl show ?thesis by simp
  next
    case (Inr st')
    then have "\<not> (\<exists>e. lineCallback l st = Inl e)" by simp
    then have "\<not> (trim l \<noteq> [] \<and> \<not> startsWith l CHR ''#'' \<and> length (split_on CHR 0x09 l) \<noteq> 2)"
      using lineCallback_throws_iff [of l st] by blast
    with Inr Cons.IH [of st'] show ?thesis by auto
  qed
qed

text \<open>
  Claim C1. For every input, \<open>parseUpsetMatrix\<close> rejects with the format error exactly when
  some line that is not blank after trimming and does not start with \<open>#\<close> does not split
  on tab into exactly two fields. The format error differs from the read failure, which
  occurs exactly when the text could not be read, and a rejected promise delivers no model.
\<close>

theorem parse_rejects_iff:
  "(parseUpsetMatrix f = Inl FailedToParse \<longleftrightarrow>
      (\<exists>result. file_text f = Some result \<and>
         (\<exists>line \<in> set (split_on CHR 0x0A result).
            trim line \<noteq> [] \<and> \<not> startsWith line CHR ''#'' \<and>
            length (split_on CHR 0x09 line) \<noteq> 2))) \<and>
   (parseUpsetMatrix f = Inl FailedToRead \<longleftrightarrow> file_text f = None) \<and>
   (\<forall>e. parseUpsetMatrix f = Inl e \<longrightarrow> \<not> (\<exists>m. parseUpsetMatrix f = Inr m))"
proof (cases "file_text f")
  case None
  then show ?thesis by (simp add: parseUpsetMatrix_def)
next
  case (Some result)
  let ?st = "\<lparr>pdata = newUpsetMatrixData, console = []\<rparr>"
  have "(\<exists>e. forEach (split_on CHR 0x0A result) ?st = Inl e) \<longleftrightarrow>
     (\<exists>line \<in> set (split_on CHR 0x0A result). trim line \<noteq> [] \<and> \<not> startsWith line CHR ''#'' \<and>
        length (split_on CHR 0x09 line) \<noteq> 2)"
    by (rule forEach_throws_iff)
  with Some show ?thesis
    by (cases "forEach (split_on CHR 0x0A result) ?st") (simp_all add: parseUpsetMatrix_def)
qed

theorem parse_rejects_iff_witness:
  "parseUpsetMatrix \<lparr>file_name = ''m.tsv'', file_text = Some (''SetA'' @ [CHR 0x0A])\<rparr> = Inl FailedToParse \<and>
   parseUpsetMatrix \<lparr>file_name = ''m.tsv'', file_text = Some (''SetA'' @ [CHR 0x09] @ ''7'')\<rparr>
     \<noteq> Inl FailedToParse \<and>
   parseUpsetMatrix \<lparr>file_name = ''m.tsv'', file_text = None\<rparr> = Inl FailedToRead"
  using parse_rejects_iff [of "\<lparr>file_name = ''m.tsv'', file_text = Some (''SetA'' @ [CHR 0x0A])\<rparr>"]
    parse_rejects_iff [of "\<lparr>file_name = ''m.tsv'', file_text = Some (''SetA'' @ [CHR 0x09] @ ''7'')\<rparr>"]
    parse_rejects_iff [of "\<lparr>file_name = ''m.tsv'', file_text = None\<rparr>"]
  by (simp add: trim_def isWhiteSpace_def)

lemma forEach_append:
  "forEach (xs @ ys) st = (case forEach xs st of Inl e \<Rightarrow> Inl e | Inr st' \<Rightarrow> forEach ys st')"
  by (induction xs arbitrary: st) (auto split: sum.splits)

text \<open>The callback never reads the console: equal models give equal outcomes.\<close>

lemma lineCallback_console:
  "pdata st1 = pdata st2 \<Longrightarrow>
     (case lineCallback l st1 of
        Inl e \<Rightarrow> lineCallback l st2 = Inl e
      | Inr s1 \<Rightarrow> (\<exists>s2. lineCallback l st2 = Inr s2 \<and> pdata s1 = pdata s2))"
  by (simp add: lineCallback_def Let_def split: option.splits)

lemma forEach_console:
  "pdata st1 = pdata st2 \<Longrightarrow>
     (case forEach ls st1 of
        Inl e \<Rightarrow> forEach ls st2 = Inl e
      | Inr s1 \<Rightarrow> (\<exists>s2. forEach ls st2 = Inr s2 \<and> pdata s1 = pdata s2))"
proof (induction ls arbitrary: st1 st2)
  case Nil
  then show ?case by simp
next
  case (Cons l ls)
  show ?case
  proof (cases "lineCallback l st1")
    case (Inl e)
    with lineCallback_console [OF Cons.prems, of l] show ?thesis by simp
  next
    case (Inr s1)
    with lineCallback_console [OF Cons.prems, of l]
    obtain s2 where s2: "lineCallback l st2 = Inr s2" "pdata s1 = pdata s2" by auto
    from Cons.IH [OF s2(2)] Inr s2(1) show ?thesis by (auto split: sum.splits)
  qed
qed

lemma lineCallback_dropped:
  assumes "length (split_on CHR 0x09 line) = 2"
    and "parseInt (trim (split_on CHR 0x09 line ! 1)) = None"
  shows "\<exists>st'. lineCallback line st = Inr st' \<and> pdata st' = pdata st"
  using assms by (simp add: lineCallback_def Let_def)

lemma forEach_dropped:
  assumes "length (split_on CHR 0x09 line) = 2"
    and "parseInt (trim (split_on CHR 0x09 line ! 1)) = None"
  shows "map_sum (\<lambda>e. ()) pdata (forEach (ls1 @ line # ls2) st) =
         map_sum (\<lambda>e. ()) pdata (forEach (ls1 @ ls2) st)"
proof (cases "forEach ls1 st")
  case (Inl e)
  then show ?thesis by (simp add: forEach_append)
next
  case (Inr s)
  from lineCallback_dropped [OF assms, of s]
  obtain s' where s': "lineCallback line s = Inr s'" "pdata s' = pdata s" by blast
  from forEach_console [OF s'(2), of ls2] have
    "map_sum (\<lambda>e. ()) pdata (forEach ls2 s') = map_sum (\<lambda>e. ()) pdata (forEach ls2 s)"
    by (auto split: sum.splits)
  with Inr s'(1) show ?thesis by (simp add: forEach_append)
qed

text \<open>
  Claim C2. A line with exactly two tab-separated fields whose second field reads as
  \<open>NaN\<close> is dropped without failing: the callback returns normally and leaves the model
  as it was, so a text parses exactly as the text without that line does (the later
  lines are processed, and the outcome is the same). In particular the input
  \<open>SetA<TAB>NaN<LF>\<close> resolves with no intersection and no set.
\<close>

theorem invalid_value_line_dropped:
  "(length (split_on CHR 0x09 line) = 2 \<and> parseInt (trim (split_on CHR 0x09 line ! 1)) = None \<longrightarrow>
      (\<exists>st'. lineCallback line st = Inr st' \<and> pdata st' = pdata st) \<and>
      (split_on CHR 0x0A text1 = ls1 @ line # ls2 \<and> split_on CHR 0x0A text2 = ls1 @ ls2 \<longrightarrow>
         parseUpsetMatrix \<lparr>file_name = n, file_text = Some text1\<rparr> =
         parseUpsetMatrix \<lparr>file_name = n, file_text = Some text2\<rparr>)) \<and>
   parseUpsetMatrix \<lparr>file_name = n, file_text = Some (''SetA'' @ [CHR 0x09] @ ''NaN'' @ [CHR 0x0A])\<rparr> =
     Inr \<lparr>data = \<lparr>sets = [], intersections = []\<rparr>, fileName = n, status = 1\<rparr>"
proof -
  let ?st = "\<lparr>pdata = newUpsetMatrixData, console = []\<rparr>"
  have a: "parseUpsetMatrix \<lparr>file_name = n, file_text = Some text1\<rparr> =
         parseUpsetMatrix \<lparr>file_name = n, file_text = Some text2\<rparr>"
    if h: "length (split_on CHR 0x09 line) = 2" "parseInt (trim (split_on CHR 0x09 line ! 1)) = None"
      and t: "split_on CHR 0x0A text1 = ls1 @ line # ls2" "split_on CHR 0x0A text2 = ls1 @ ls2"
  proof -
    from forEach_dropped [OF h, of ls1 ls2 ?st] t
    have "map_sum (\<lambda>e. ()) pdata (forEach (split_on CHR 0x0A text1) ?st) =
          map_sum (\<lambda>e. ()) pdata (forEach (split_on CHR 0x0A text2) ?st)" by simp
    then show ?thesis
      by (cases "forEach (split_on CHR 0x0A text1) ?st"; cases "forEach (split_on CHR 0x0A text2) ?st")
        (simp_all add: parseUpsetMatrix_def)
  qed
  have b: "parseUpsetMatrix \<lparr>file_name = n, file_text = Some (''SetA'' @ [CHR 0x09] @ ''NaN'' @ [CHR 0x0A])\<rparr> =
     Inr \<lparr>data = \<lparr>sets = [], intersections = []\<rparr>, fileName = n, status = 1\<rparr>"
    by (simp add: parseUpsetMatrix_def lineCallback_def trim_def isWhiteSpace_def parseInt_def toNumber_exact
        isDigit_def newUpsetMatrixData_def)
  from a b lineCallback_dropped show ?thesis by blast
qed

theorem invalid_value_line_dropped_witness:
  "parseUpsetMatrix \<lparr>file_name = ''m.tsv'',
      file_text = Some (''A'' @ [CHR 0x09] @ ''x'' @ [CHR 0x0A] @ ''B'' @ [CHR 0x09] @ ''3'')\<rparr> =
   Inr \<lparr>data = \<lparr>sets = [''B''], intersections = [\<lparr>set_key = ''B'', value_num = Finite 3\<rparr>]\<rparr>,
        fileName = ''m.tsv'', status = 1\<rparr>"
proof -
  have "parseUpsetMatrix \<lparr>file_name = ''m.tsv'',
      file_text = Some (''A'' @ [CHR 0x09] @ ''x'' @ [CHR 0x0A] @ ''B'' @ [CHR 0x09] @ ''3'')\<rparr> =
    parseUpsetMatrix \<lparr>file_name = ''m.tsv'', file_text = Some (''B'' @ [CHR 0x09] @ ''3'')\<rparr>"
    using invalid_value_line_dropped [where line = "''A'' @ [CHR 0x09] @ ''x''"
        and ?text1.0 = "''A'' @ [CHR 0x09] @ ''x'' @ [CHR 0x0A] @ ''B'' @ [CHR 0x09] @ ''3''"
        and ?ls1.0 = "[]" and ?ls2.0 = "[''B'' @ [CHR 0x09] @ ''3'']"
        and ?text2.0 = "''B'' @ [CHR 0x09] @ ''3''" and n = "''m.tsv''"]
    by (simp add: trim_def isWhiteSpace_def parseInt_def toNumber_exact isDigit_def)
  also have "\<dots> = Inr \<lparr>data = \<lparr>sets = [''B''], intersections = [\<lparr>set_key = ''B'', value_num = Finite 3\<rparr>]\<rparr>,
        fileName = ''m.tsv'', status = 1\<rparr>"
    by (simp add: parseUpsetMatrix_def lineCallback_def trim_def isWhiteSpace_def parseInt_def toNumber_exact
        isDigit_def newUpsetMatrixData_def addIntersection_def addSet_def Let_def)
  finally show ?thesis .
qed

section \<open>Claims about the model\<close>

lemma fold_addSet_intersections: "intersections (fold addSet ns m) = intersections m"
  by (induction ns arbitrary: m) (simp_all add: addSet_def)

lemma fold_addSet_set: "set (sets (fold addSet ns m)) = set (sets m) \<union> set ns"
  by (induction ns arbitrary: m) (auto simp: addSet_def)

lemma fold_addSet_distinct: "distinct (sets m) \<Longrightarrow> distinct (sets (fold addSet ns m))"
  by (induction ns arbitrary: m) (simp_all add: addSet_def)

lemma fold_addSet_known: "set ns \<subseteq> set (sets m) \<Longrightarrow> sets (fold addSet ns m) = sets m"
  by (induction ns arbitrary: m) (simp_all add: addSet_def)

lemma intersections_addIntersection:
  "intersections (addIntersection s v m) = intersections m @ [\<lparr>set_key = s, value_num = v\<rparr>]"
  by (simp add: addIntersection_def fold_addSet_intersections)

lemma set_sets_addIntersection:
  "set (sets (addIntersection s v m)) = set (sets m) \<union> set (split_on CHR '','' s)"
  by (simp add: addIntersection_def fold_addSet_set)

lemma distinct_sets_addIntersection:
  "distinct (sets m) \<Longrightarrow> distinct (sets (addIntersection s v m))"
  by (simp add: addIntersection_def fold_addSet_distinct)

lemma sets_addIntersection_known:
  "set (split_on CHR '','' s) \<subseteq> set (sets m) \<Longrightarrow> sets (addIntersection s v m) = sets m"
  by (simp add: addIntersection_def fold_addSet_known)

lemma fold_addIntersection_sets:
  "set (sets (fold (\<lambda>c. addIntersection (fst c) (snd c)) calls m)) =
     set (sets m) \<union> (\<Union>c \<in> set calls. set (split_on CHR '','' (fst c)))"
  by (induction calls arbitrary: m) (auto simp: set_sets_addIntersection)

lemma fold_addIntersection_distinct:
  "distinct (sets m) \<Longrightarrow> distinct (sets (fold (\<lambda>c. addIntersection (fst c) (snd c)) calls m))"
  by (induction calls arbitrary: m) (simp_all add: distinct_sets_addIntersection)

lemma fold_addIntersection_keys:
  "map set_key (intersections (fold (\<lambda>c. addIntersection (fst c) (snd c)) calls m)) =
     map set_key (intersections m) @ map fst calls"
  by (induction calls arbitrary: m) (simp_all add: intersections_addIntersection)

text \<open>
  Claim C3. After any sequence of \<open>addIntersection\<close> calls on a new model, the set
  collection is exactly the union of the comma-split components of the combination keys
  held by the model, which are the keys of the calls in order; the number of set names is
  the size of that union; and adding an intersection whose components are all known
  leaves the set collection as it was.
\<close>

theorem sets_are_union_of_components:
  "set (getSets (fold (\<lambda>c. addIntersection (fst c) (snd c)) calls newUpsetMatrixData)) =
     (\<Union>k \<in> set (map set_key (getIntersections
         (fold (\<lambda>c. addIntersection (fst c) (snd c)) calls newUpsetMatrixData))).
        set (split_on CHR '','' k)) \<and>
   map set_key (getIntersections
      (fold (\<lambda>c. addIntersection (fst c) (snd c)) calls newUpsetMatrixData)) = map fst calls \<and>
   length (getSets (fold (\<lambda>c. addIntersection (fst c) (snd c)) calls newUpsetMatrixData)) =
     card (\<Union>c \<in> set calls. set (split_on CHR '','' (fst c))) \<and>
   (\<forall>s v. set (split_on CHR '','' s) \<subseteq>
            set (getSets (fold (\<lambda>c. addIntersection (fst c) (snd c)) calls newUpsetMatrixData)) \<longrightarrow>
      getSets (addIntersection s v
        (fold (\<lambda>c. addIntersection (fst c) (snd c)) calls newUpsetMatrixData)) =
      getSets (fold (\<lambda>c. addIntersection (fst c) (snd c)) calls newUpsetMatrixData))"
proof -
  let ?m = "fold (\<lambda>c. addIntersection (fst c) (snd c)) calls newUpsetMatrixData"
  have keys: "map set_key (getIntersections ?m) = map fst calls"
    by (simp add: getIntersections_def fold_addIntersection_keys newUpsetMatrixData_def)
  have un: "set (getSets ?m) = (\<Union>c \<in> set calls. set (split_on CHR '','' (fst c)))"
    by (simp add: getSets_def fold_addIntersection_sets newUpsetMatrixData_def)
  have d: "distinct (getSets ?m)"
    by (simp add: getSets_def fold_addIntersection_distinct newUpsetMatrixData_def)
  have len: "length (getSets ?m) = card (\<Union>c \<in> set calls. set (split_on CHR '','' (fst c)))"
    using distinct_card [OF d] un by simp
  have un': "set (getSets ?m) = (\<Union>k \<in> set (map set_key (getIntersections ?m)). set (split_on CHR '','' k))"
    unfolding keys un by simp
  have known: "\<forall>s v. set (split_on CHR '','' s) \<subseteq> set (getSets ?m) \<longrightarrow>
      getSets (addIntersection s v ?m) = getSets ?m"
    by (simp add: getSets_def sets_addIntersection_known)
  show ?thesis by (rule conjI [OF un' conjI [OF keys conjI [OF len known]]])
qed

theorem sets_are_union_of_components_witness:
  "getSets (fold (\<lambda>c. addIntersection (fst c) (snd c))
      [(''SetA'', Finite 120), (''SetB'', Finite 150), (''SetA,SetB'', Finite 45)] newUpsetMatrixData) = [''SetA'', ''SetB''] \<and>
   set (split_on CHR '','' ''SetB,SetA'') \<subseteq> set [''SetA'', ''SetB''] \<and>
   getSets (addIntersection ''SetB,SetA'' (Finite 7) (fold (\<lambda>c. addIntersection (fst c) (snd c))
      [(''SetA'', Finite 120), (''SetB'', Finite 150), (''SetA,SetB'', Finite 45)] newUpsetMatrixData)) = [''SetA'', ''SetB'']"
proof -
  let ?calls = "[(''SetA'', Finite 120), (''SetB'', Finite 150), (''SetA,SetB'', Finite 45)]"
  have a: "getSets (fold (\<lambda>c. addIntersection (fst c) (snd c)) ?calls newUpsetMatrixData) =
      [''SetA'', ''SetB'']"
    by (simp add: getSets_def addIntersection_def addSet_def newUpsetMatrixData_def)
  have b: "set (split_on CHR '','' ''SetB,SetA'') \<subseteq> set [''SetA'', ''SetB'']"
    by simp
  note k = sets_are_union_of_components [of ?calls, THEN conjunct2, THEN conjunct2,
      THEN conjunct2, rule_format, of "''SetB,SetA''" "Finite 7"]
  from b have "set (split_on CHR '','' ''SetB,SetA'') \<subseteq>
      set (getSets (fold (\<lambda>c. addIntersection (fst c) (snd c)) ?calls newUpsetMatrixData))"
    by (simp only: a)
  from k [OF this]
  have "getSets (addIntersection ''SetB,SetA'' (Finite 7)
          (fold (\<lambda>c. addIntersection (fst c) (snd c)) ?calls newUpsetMatrixData)) =
        [''SetA'', ''SetB'']"
    by (simp only: a)
  with a b show ?thesis by blast
qed

lemma Math_max_eq: "Math_max x xs = Max (set (x # xs))"
  by (simp only: Math_max_def Max.set_eq_fold)

text \<open>
  Claim C8. \<open>getMaxIntersectionValue\<close> returns 0 for a model with no intersection, and
  the maximum of the intersection values otherwise.
\<close>

theorem getMaxIntersectionValue_spec:
  "(getIntersections m = [] \<longrightarrow> getMaxIntersectionValue m = Finite 0) \<and>
   (getIntersections m \<noteq> [] \<longrightarrow>
      getMaxIntersectionValue m = Max (value_num ` set (getIntersections m)))"
proof (cases "intersections m")
  case Nil
  then show ?thesis by (simp add: getMaxIntersectionValue_def getIntersections_def)
next
  case (Cons e es)
  then have "getMaxIntersectionValue m = Max (set (value_num e # map value_num es))"
    by (simp add: getMaxIntersectionValue_def Math_max_eq del: set_simps)
  with Cons show ?thesis by (simp add: getIntersections_def)
qed

theorem getMaxIntersectionValue_spec_witness:
  "getMaxIntersectionValue newUpsetMatrixData = Finite 0 \<and>
   getMaxIntersectionValue \<lparr>sets = [''SetA'', ''SetB''],
      intersections = [\<lparr>set_key = ''SetA'', value_num = Finite 120\<rparr>, \<lparr>set_key = ''SetB'', value_num = Finite 150\<rparr>,
                       \<lparr>set_key = ''SetA,SetB'', value_num = Finite 45\<rparr>]\<rparr> = Finite 150"
  using getMaxIntersectionValue_spec [of newUpsetMatrixData]
    getMaxIntersectionValue_spec [of "\<lparr>sets = [''SetA'', ''SetB''],
      intersections = [\<lparr>set_key = ''SetA'', value_num = Finite 120\<rparr>, \<lparr>set_key = ''SetB'', value_num = Finite 150\<rparr>,
                       \<lparr>set_key = ''SetA,SetB'', value_num = Finite 45\<rparr>]\<rparr>"]
  by (simp add: getIntersections_def newUpsetMatrixData_def)

lemma digitsValue_nonneg:
  "0 \<le> acc \<Longrightarrow> list_all isDigit z \<Longrightarrow> 0 \<le> digitsValue z acc"
  by (induction z arbitrary: acc) (simp_all add: isDigit_def)

lemma trim_is_take: "\<exists>k. trim s = take k (dropWhile isWhiteSpace s)"
proof -
  have "rev (dropWhile P (rev xs)) = take (length xs - length (takeWhile P (rev xs))) xs"
    for P and xs :: string
    by (simp add: dropWhile_eq_drop rev_drop)
  then show ?thesis unfolding trim_def by blast
qed

lemma trim_no_leading_space: "dropWhile isWhiteSpace (trim s) = trim s"
proof (cases "trim s")
  case Nil
  then show ?thesis by simp
next
  case (Cons c cs)
  from trim_is_take [of s] obtain k where k: "trim s = take k (dropWhile isWhiteSpace s)" ..
  with Cons have "dropWhile isWhiteSpace s \<noteq> []" "hd (dropWhile isWhiteSpace s) = c"
    by (cases "dropWhile isWhiteSpace s"; cases k; simp)+
  then have "\<not> isWhiteSpace c" using hd_dropWhile [of isWhiteSpace s] by simp
  with Cons show ?thesis by simp
qed

lemma parseInt_trim_nonneg:
  assumes "parseInt (trim s) = Some v" and "\<not> startsWith (trim s) CHR ''-''"
  shows "Finite 0 \<le> v"
proof -
  have "list_all isDigit (takeWhile isDigit xs)" for xs
    by (simp add: list_all_iff) (meson set_takeWhileD)
  then have "0 \<le> digitsValue (takeWhile isDigit xs) 0" for xs
    by (simp add: digitsValue_nonneg)
  then have nn: "Finite 0 \<le> toNumber (digitsValue (takeWhile isDigit xs) 0)" for xs
    by (rule toNumber_nonneg)
  have "parseInt (trim s) =
     (let s1 = trim s;
          sign = (case s1 of [] \<Rightarrow> 1 | c # r \<Rightarrow> if c = CHR ''-'' then - 1 else (1::int));
          s2 = (case s1 of [] \<Rightarrow> [] | c # r \<Rightarrow> if c = CHR ''+'' \<or> c = CHR ''-'' then r else s1);
          z = takeWhile isDigit s2
      in if z = [] then None else Some (toNumber (sign * digitsValue z 0)))"
    by (simp only: parseInt_def trim_no_leading_space)
  with assms nn show ?thesis
    by (cases "trim s") (auto simp: Let_def split: if_splits)
qed

lemma lineCallback_entries:
  assumes "lineCallback line st = Inr st'" and "e \<in> set (intersections (pdata st'))"
  shows "e \<in> set (intersections (pdata st)) \<or>
     (length (split_on CHR 0x09 line) = 2 \<and>
      set_key e = trim (split_on CHR 0x09 line ! 0) \<and>
      parseInt (trim (split_on CHR 0x09 line ! 1)) = Some (value_num e))"
  using assms
  by (auto simp: lineCallback_def Let_def intersections_addIntersection
      split: if_splits option.splits)

lemma forEach_entries:
  assumes "forEach ls st = Inr st'" and "e \<in> set (intersections (pdata st'))"
  shows "e \<in> set (intersections (pdata st)) \<or>
     (\<exists>line \<in> set ls. length (split_on CHR 0x09 line) = 2 \<and>
        set_key e = trim (split_on CHR 0x09 line ! 0) \<and>
        parseInt (trim (split_on CHR 0x09 line ! 1)) = Some (value_num e))"
  using assms
proof (induction ls arbitrary: st)
  case Nil
  then show ?case by simp
next
  case (Cons l ls)
  from Cons.prems(1) obtain s where s: "lineCallback l st = Inr s" "forEach ls s = Inr st'"
    by (auto split: sum.splits)
  from Cons.IH [OF s(2) Cons.prems(2)] lineCallback_entries [OF s(1), of e]
  show ?case by auto
qed

text \<open>
  Claim C4, as amended. Every intersection entry of a model produced by a successful
  parse carries the number that \<open>parseInt\<close> reads from the trimmed second field of a
  two-field line of the text, that is the integer which the digits of the field denote,
  with its sign, as a double (exact up to \<open>2^53\<close>, rounded to the nearest double above, an
  infinity beyond the doubles); its key is the trimmed first field. The value is
  non-negative whenever that field does not start with a minus sign. A signed field such
  as \<open>-5\<close> is accepted with its negative value: the parser has no check of the sign.
\<close>

theorem parsed_values_are_read_integers:
  assumes "parseUpsetMatrix f = Inr m" and "e \<in> set (getIntersections (data m))"
  shows "\<exists>result line. file_text f = Some result \<and> line \<in> set (split_on CHR 0x0A result) \<and>
     length (split_on CHR 0x09 line) = 2 \<and>
     set_key e = trim (split_on CHR 0x09 line ! 0) \<and>
     parseInt (trim (split_on CHR 0x09 line ! 1)) = Some (value_num e) \<and>
     (\<not> startsWith (trim (split_on CHR 0x09 line ! 1)) CHR ''-'' \<longrightarrow> Finite 0 \<le> value_num e)"
proof -
  let ?st = "\<lparr>pdata = newUpsetMatrixData, console = []\<rparr>"
  from assms(1) obtain result st' where r: "file_text f = Some result"
    "forEach (split_on CHR 0x0A result) ?st = Inr st'" "data m = pdata st'"
    by (auto simp: parseUpsetMatrix_def split: option.splits sum.splits)
  from assms(2) r(3) have "e \<in> set (intersections (pdata st'))"
    by (simp add: getIntersections_def)
  from forEach_entries [OF r(2) this]
  obtain line where l: "line \<in> set (split_on CHR 0x0A result)"
    "length (split_on CHR 0x09 line) = 2" "set_key e = trim (split_on CHR 0x09 line ! 0)"
    "parseInt (trim (split_on CHR 0x09 line ! 1)) = Some (value_num e)"
    by (auto simp: newUpsetMatrixData_def)
  from parseInt_trim_nonneg [OF l(4)]
  have "\<not> startsWith (trim (split_on CHR 0x09 line ! 1)) CHR ''-'' \<longrightarrow> Finite 0 \<le> value_num e"
    by blast
  with r(1) l show ?thesis by blast
qed

text \<open>
  The line \<open>SetA<TAB>-5\<close> is accepted, and its entry has the value \<open>-5\<close>.
\<close>

theorem negative_value_counterexample:
  "parseUpsetMatrix
     \<lparr>file_name = ''m.tsv'', file_text = Some (''SetA'' @ [CHR 0x09] @ ''-5'' @ [CHR 0x0A])\<rparr> =
   Inr \<lparr>data = \<lparr>sets = [''SetA''], intersections = [\<lparr>set_key = ''SetA'', value_num = Finite (- 5)\<rparr>]\<rparr>,
        fileName = ''m.tsv'', status = 1\<rparr> \<and>
   value_num (getIntersections \<lparr>sets = [''SetA''],
      intersections = [\<lparr>set_key = ''SetA'', value_num = Finite (- 5)\<rparr>]\<rparr> ! 0) < Finite 0"
  by (simp add: parseUpsetMatrix_def lineCallback_def trim_def isWhiteSpace_def parseInt_def toNumber_exact
      isDigit_def newUpsetMatrixData_def addIntersection_def addSet_def Let_def
      getIntersections_def less_number_def)

text \<open>
  Readings of \<open>parseInt\<close> beyond the exact integers: \<open>2^53 + 1\<close> is a tie and rounds to the
  even neighbour \<open>2^53\<close>; \<open>10^309\<close> is beyond the doubles.
\<close>

lemma toNumber_2_53_3: "toNumber 9007199254740993 = Finite 9007199254740992"
proof -
  have "fl 9007199254740993 = 9007199254740992"
    by (subst fl_eval [where k = 53]) (simp_all add: pow2_def roundTiesToEven_def Let_def)
  then show ?thesis by (simp add: toNumber_def)
qed

lemma toNumber_10_309:
  "toNumber 1000000000000000000000000000000000000000000000000000000000000000000000000000000000000000000000000000000000000000000000000000000000000000000000000000000000000000000000000000000000000000000000000000000000000000000000000000000000000000000000000000000000000000000000000000000000000000000000000000000000000000000000 = PlusInfinity"
proof -
  have "2 ^ 1024 \<le> fl 1000000000000000000000000000000000000000000000000000000000000000000000000000000000000000000000000000000000000000000000000000000000000000000000000000000000000000000000000000000000000000000000000000000000000000000000000000000000000000000000000000000000000000000000000000000000000000000000000000000000000000000000"
    by (subst fl_eval [where k = 1026]) (simp_all add: pow2_def roundTiesToEven_def Let_def)
  then show ?thesis by (simp add: toNumber_def)
qed

theorem parsed_values_are_read_integers_witness:
  "parseUpsetMatrix
     \<lparr>file_name = ''m.tsv'', file_text = Some
       (''SetA'' @ [CHR 0x09] @ ''-5'' @ [CHR 0x0A] @ ''B'' @ [CHR 0x09] @ ''9007199254740993'' @ [CHR 0x0A] @
        ''C'' @ [CHR 0x09] @ ''1000000000000000000000000000000000000000000000000000000000000000000000000000000000000000000000000000000000000000000000000000000000000000000000000000000000000000000000000000000000000000000000000000000000000000000000000000000000000000000000000000000000000000000000000000000000000000000000000000000000000000000000'')\<rparr> =
   Inr \<lparr>data = \<lparr>sets = [''SetA'', ''B'', ''C''],
          intersections = [\<lparr>set_key = ''SetA'', value_num = Finite (- 5)\<rparr>,
                           \<lparr>set_key = ''B'', value_num = Finite 9007199254740992\<rparr>,
                           \<lparr>set_key = ''C'', value_num = PlusInfinity\<rparr>]\<rparr>,
        fileName = ''m.tsv'', status = 1\<rparr> \<and>
   (\<exists>line. line \<in> set (split_on CHR 0x0A
        (''SetA'' @ [CHR 0x09] @ ''-5'' @ [CHR 0x0A] @ ''B'' @ [CHR 0x09] @ ''9007199254740993'' @ [CHR 0x0A] @
        ''C'' @ [CHR 0x09] @ ''1000000000000000000000000000000000000000000000000000000000000000000000000000000000000000000000000000000000000000000000000000000000000000000000000000000000000000000000000000000000000000000000000000000000000000000000000000000000000000000000000000000000000000000000000000000000000000000000000000000000000000000000'')) \<and>
      length (split_on CHR 0x09 line) = 2 \<and>
      parseInt (trim (split_on CHR 0x09 line ! 1)) = Some (Finite 9007199254740992))"
proof -
  let ?f = "\<lparr>file_name = ''m.tsv'', file_text = Some
       (''SetA'' @ [CHR 0x09] @ ''-5'' @ [CHR 0x0A] @ ''B'' @ [CHR 0x09] @ ''9007199254740993'' @ [CHR 0x0A] @
        ''C'' @ [CHR 0x09] @ ''1000000000000000000000000000000000000000000000000000000000000000000000000000000000000000000000000000000000000000000000000000000000000000000000000000000000000000000000000000000000000000000000000000000000000000000000000000000000000000000000000000000000000000000000000000000000000000000000000000000000000000000000'')\<rparr>"
  let ?m = "\<lparr>data = \<lparr>sets = [''SetA'', ''B'', ''C''],
          intersections = [\<lparr>set_key = ''SetA'', value_num = Finite (- 5)\<rparr>,
                           \<lparr>set_key = ''B'', value_num = Finite 9007199254740992\<rparr>,
                           \<lparr>set_key = ''C'', value_num = PlusInfinity\<rparr>]\<rparr>,
        fileName = ''m.tsv'', status = 1\<rparr>"
  have p: "parseUpsetMatrix ?f = Inr ?m"
    by (simp add: parseUpsetMatrix_def lineCallback_def trim_def isWhiteSpace_def parseInt_def
        toNumber_exact toNumber_2_53_3 toNumber_10_309
        isDigit_def newUpsetMatrixData_def addIntersection_def addSet_def Let_def)
  have e: "\<lparr>set_key = ''B'', value_num = Finite 9007199254740992\<rparr> \<in>
      set (getIntersections (data ?m))"
    by (simp add: getIntersections_def)
  from parsed_values_are_read_integers [OF p e]
  have "\<exists>line. line \<in> set (split_on CHR 0x0A
        (''SetA'' @ [CHR 0x09] @ ''-5'' @ [CHR 0x0A] @ ''B'' @ [CHR 0x09] @ ''9007199254740993'' @ [CHR 0x0A] @
        ''C'' @ [CHR 0x09] @ ''1000000000000000000000000000000000000000000000000000000000000000000000000000000000000000000000000000000000000000000000000000000000000000000000000000000000000000000000000000000000000000000000000000000000000000000000000000000000000000000000000000000000000000000000000000000000000000000000000000000000000000000000'')) \<and>
      length (split_on CHR 0x09 line) = 2 \<and>
      parseInt (trim (split_on CHR 0x09 line ! 1)) = Some (Finite 9007199254740992)"
    by auto
  with p show ?thesis by blast
qed

section \<open>Claims about the chart\<close>

subsection \<open>The recolouring path against a full render\<close>

lemma those_map_append:
  "those (map f (xs @ ys)) =
     (case those (map f xs) of None \<Rightarrow> None | Some a \<Rightarrow> map_option ((@) a) (those (map f ys)))"
proof (induction xs)
  case Nil
  show ?case by (cases "those (map f ys)") simp_all
next
  case (Cons x xs)
  then show ?case
    by (cases "f x"; cases "those (map f xs)"; cases "those (map f ys)") simp_all
qed

lemma those_map_Some: "those (map (\<lambda>x. Some (h x)) xs) = Some (map h xs)"
  by (induction xs) simp_all

lemma those_map_comp_Some:
  "(\<And>x. f (k x) = Some (h x)) \<Longrightarrow> those (map f (map k xs)) = Some (map h xs)"
  by (induction xs) simp_all

lemma layout_interaction:
  "layout (p\<lparr>selectedIntersections := ks, hoveredIntersection := h\<rparr>) = layout p"
proof -
  have "dimensions (p\<lparr>selectedIntersections := ks, hoveredIntersection := h\<rparr>) = dimensions p"
    and "upsetMatrix (p\<lparr>selectedIntersections := ks, hoveredIntersection := h\<rparr>) = upsetMatrix p"
    by simp_all
  then show ?thesis by (simp only: layout_def)
qed

lemma update_gridCell_fill_eq:
  "update_gridCell_fill p (CellDatum s d i) = Some (render_gridCell_fill p s d)"
  by (simp add: update_gridCell_fill_def render_gridCell_fill_def)

lemma update_circle_fill_eq:
  "update_circle_fill p (CellDatum s d i) = Some (render_circle_fill p s d)"
  by (simp add: update_circle_fill_def render_circle_fill_def)

lemma update_valueBar_fill_eq:
  "update_valueBar_fill p (RowDatum d) = Some (render_valueBar_fill p d)"
  by (simp add: update_valueBar_fill_def render_valueBar_fill_def)

text \<open>Elements that a pass leaves as they are.\<close>

lemma style_fill_setLabel:
  "t \<noteq> ''text'' \<Longrightarrow> style_fill t c f (setLabel p g x) = Some (setLabel p g x)"
  by (cases x) (simp add: setLabel_def Let_def)

lemma style_fill_barLabel:
  "t \<noteq> ''text'' \<Longrightarrow> style_fill t c f (barLabel p g x) = Some (barLabel p g x)"
  by (cases x) (simp add: barLabel_def Let_def split: option.split)

lemma style_fill_intersectionLabel:
  "t \<noteq> ''text'' \<Longrightarrow> t \<noteq> ''title'' \<Longrightarrow>
     style_fill t c f (intersectionLabel p g x) = Some (intersectionLabel p g x)"
  by (cases x) (simp add: intersectionLabel_def)

lemma style_fill_eventRect:
  "c \<noteq> ''eventRect'' \<Longrightarrow> style_fill t c f (eventRect g x) = Some (eventRect g x)"
  by (cases x) (simp add: eventRect_def)

lemma style_fill_valueBar_other:
  "c \<noteq> ''valueBar'' \<Longrightarrow> style_fill t c f (valueBar fb g x) = Some (valueBar fb g x)"
  by (cases x) (simp add: valueBar_def)

lemma style_fill_valueBar:
  "(\<And>d. f (RowDatum d) = Some (fb' d)) \<Longrightarrow>
     style_fill ''rect'' ''valueBar'' f (valueBar fb g x) = Some (valueBar fb' g x)"
  by (cases x) (simp add: valueBar_def)

lemma style_fill_rect_gridCell_rect:
  "(\<And>s d i. f (CellDatum s d i) = Some (fr' s d)) \<Longrightarrow>
     style_fill ''rect'' ''gridCell'' f (gridCell_rect fr g i d x) = Some (gridCell_rect fr' g i d x)"
  by (cases x) (simp add: gridCell_rect_def)

lemma style_fill_gridCell_rect_other:
  "t \<noteq> ''rect'' \<or> c \<noteq> ''gridCell'' \<Longrightarrow>
     style_fill t c f (gridCell_rect fr g i d x) = Some (gridCell_rect fr g i d x)"
  by (cases x) (auto simp: gridCell_rect_def)

lemma style_fill_circle_gridCell_circle:
  "(\<And>s d i. f (CellDatum s d i) = Some (fc' s d)) \<Longrightarrow>
     style_fill ''circle'' ''gridCell'' f (gridCell_circle fc g i d x) =
     Some (gridCell_circle fc' g i d x)"
  by (cases x) (simp add: gridCell_circle_def)

lemma style_fill_gridCell_circle_other:
  "t \<noteq> ''circle'' \<or> c \<noteq> ''gridCell'' \<Longrightarrow>
     style_fill t c f (gridCell_circle fc g i d x) = Some (gridCell_circle fc g i d x)"
  by (cases x) (auto simp: gridCell_circle_def)

lemma style_fill_gridRow:
  assumes "\<And>i d x. style_fill t c f (gridCell_rect fr g i d x) = Some (gridCell_rect fr' g i d x)"
    and "\<And>i d x. style_fill t c f (gridCell_circle fc g i d x) = Some (gridCell_circle fc' g i d x)"
    and "t \<noteq> ''g''"
  shows "style_fill t c f (gridRow fr fc names g x) = Some (gridRow fr' fc' names g x)"
proof (cases x)
  case (Pair i d)
  have a: "those (map (style_fill t c f) (map (gridCell_rect fr g i d) (enumerate 0 names))) =
      Some (map (gridCell_rect fr' g i d) (enumerate 0 names))"
    by (rule those_map_comp_Some) (rule assms(1))
  have b: "those (map (style_fill t c f) (map (gridCell_circle fc g i d) (enumerate 0 names))) =
      Some (map (gridCell_circle fc' g i d) (enumerate 0 names))"
    by (rule those_map_comp_Some) (rule assms(2))
  from a b have "those (map (style_fill t c f)
        (map (gridCell_rect fr g i d) (enumerate 0 names) @
         map (gridCell_circle fc g i d) (enumerate 0 names))) =
      Some (map (gridCell_rect fr' g i d) (enumerate 0 names) @
            map (gridCell_circle fc' g i d) (enumerate 0 names))"
    by (simp only: those_map_append option.case option.map)
  with Pair assms(3) show ?thesis by (simp add: gridRow_def)
qed

text \<open>A pass over the whole drawing.\<close>

lemma style_fill_drawing:
  assumes row: "\<And>x. style_fill t c f (gridRow fr fc (getSets (upsetMatrix p)) g x) =
        Some (gridRow fr' fc' (getSets (upsetMatrix p)) g x)"
    and bar: "\<And>x. style_fill t c f (valueBar fb g x) = Some (valueBar fb' g x)"
    and t: "t = ''rect'' \<or> t = ''circle''" and c: "c = ''gridCell'' \<or> c = ''valueBar''"
  shows "those (map (style_fill t c f) (drawing fr fc fb p g)) = Some (drawing fr' fc' fb' p g)"
proof -
  let ?names = "getSets (upsetMatrix p)" and ?rows = "getIntersections (upsetMatrix p)"
  from t have tt: "t \<noteq> ''text''" "t \<noteq> ''title''" "t \<noteq> ''g''" by auto
  from c have cc: "c \<noteq> ''eventRect''" "c \<noteq> []" by auto
  have 1: "those (map (style_fill t c f) (map (setLabel p g) (enumerate 0 ?names))) =
      Some (map (setLabel p g) (enumerate 0 ?names))"
    by (rule those_map_comp_Some) (rule style_fill_setLabel [OF tt(1)])
  have 2: "those (map (style_fill t c f) (map (gridRow fr fc ?names g) (enumerate 0 ?rows))) =
      Some (map (gridRow fr' fc' ?names g) (enumerate 0 ?rows))"
    by (rule those_map_comp_Some) (rule row)
  have 3: "those (map (style_fill t c f) (map (valueBar fb g) (enumerate 0 ?rows))) =
      Some (map (valueBar fb' g) (enumerate 0 ?rows))"
    by (rule those_map_comp_Some) (rule bar)
  have 4: "those (map (style_fill t c f) (map (barLabel p g) (enumerate 0 ?rows))) =
      Some (map (barLabel p g) (enumerate 0 ?rows))"
    by (rule those_map_comp_Some) (rule style_fill_barLabel [OF tt(1)])
  have 5: "those (map (style_fill t c f) (map (intersectionLabel p g) (enumerate 0 ?rows))) =
      Some (map (intersectionLabel p g) (enumerate 0 ?rows))"
    by (rule those_map_comp_Some) (rule style_fill_intersectionLabel [OF tt(1) tt(2)])
  have 6: "those (map (style_fill t c f) (map (eventRect g) (enumerate 0 ?rows))) =
      Some (map (eventRect g) (enumerate 0 ?rows))"
    by (rule those_map_comp_Some) (rule style_fill_eventRect [OF cc(1)])
  have 7: "style_fill t c f (Element ''rect'' [] NoDatum as ss tx []) =
      Some (Element ''rect'' [] NoDatum as ss tx [])" for as ss tx
    using cc(2) by auto
  have 8: "style_fill t c f (Element ''g'' ''x-axis'' NoDatum as ss tx []) =
      Some (Element ''g'' ''x-axis'' NoDatum as ss tx [])" for as ss tx
    using tt(3) by auto
  show ?thesis
    unfolding drawing_def Let_def
    by (simp only: those_map_append 1 2 3 4 5 6 7 8 list.map those.simps option.case option.map
        append.simps)
qed


lemma setLabel_interaction:
  "setLabel (p\<lparr>selectedIntersections := ks, hoveredIntersection := h\<rparr>) g = setLabel p g"
  by (simp add: setLabel_def)

lemma barLabel_interaction:
  "barLabel (p\<lparr>selectedIntersections := ks, hoveredIntersection := h\<rparr>) g = barLabel p g"
  by (simp add: barLabel_def)

lemma maxDisplayLength_interaction:
  "maxDisplayLength (p\<lparr>selectedIntersections := ks, hoveredIntersection := h\<rparr>) =
   maxDisplayLength p"
proof -
  have "dimensions (p\<lparr>selectedIntersections := ks, hoveredIntersection := h\<rparr>) = dimensions p"
    and "upsetMatrix (p\<lparr>selectedIntersections := ks, hoveredIntersection := h\<rparr>) = upsetMatrix p"
    by simp_all
  then show ?thesis
    by (simp only: maxDisplayLength_def marginLeft_double_def labelFontSize_double_def)
qed

lemma intersectionLabel_interaction:
  "intersectionLabel (p\<lparr>selectedIntersections := ks, hoveredIntersection := h\<rparr>) g =
   intersectionLabel p g"
  by (simp only: intersectionLabel_def maxDisplayLength_interaction)

lemma drawing_interaction:
  "drawing fr fc fb (p\<lparr>selectedIntersections := ks, hoveredIntersection := h\<rparr>) g =
   drawing fr fc fb p g"
  by (simp add: drawing_def setLabel_interaction barLabel_interaction
      intersectionLabel_interaction)

lemma render_fills_interaction:
  assumes "selectedIntersections a = selectedIntersections b"
    and "hoveredIntersection a = hoveredIntersection b"
  shows "render_gridCell_fill a = render_gridCell_fill b"
    and "render_circle_fill a = render_circle_fill b"
    and "render_valueBar_fill a = render_valueBar_fill b"
  using assms
  by (simp_all add: fun_eq_iff render_gridCell_fill_def render_circle_fill_def
      render_valueBar_fill_def isSetInIntersection_def)

lemma style_fill_container:
  "those (map (style_fill t c f) ch) = Some ch' \<Longrightarrow> t \<noteq> ''g'' \<Longrightarrow>
     those (map (style_fill t c f) [Element ''g'' [] NoDatum as ss tx ch]) =
     Some [Element ''g'' [] NoDatum as ss tx ch']"
  by simp

lemma updateHighlighting_drawing:
  assumes "svg q = [Element ''g'' [] NoDatum as ss tx (drawing fr fc fb p g)]"
  shows "updateHighlighting q =
     Some (q\<lparr>svg := [Element ''g'' [] NoDatum as ss tx
        (drawing (render_gridCell_fill q) (render_circle_fill q) (render_valueBar_fill q) p g)]\<rparr>)"
proof -
  let ?names = "getSets (upsetMatrix p)"
  have r1: "style_fill ''rect'' ''gridCell'' (update_gridCell_fill q) (gridRow fr fc ?names g x) =
      Some (gridRow (render_gridCell_fill q) fc ?names g x)" for x
    by (rule style_fill_gridRow)
      (simp_all add: style_fill_rect_gridCell_rect update_gridCell_fill_eq
        style_fill_gridCell_circle_other)
  have p1: "those (map (style_fill ''rect'' ''gridCell'' (update_gridCell_fill q)) (svg q)) =
      Some [Element ''g'' [] NoDatum as ss tx (drawing (render_gridCell_fill q) fc fb p g)]"
    unfolding assms
    by (rule style_fill_container, rule style_fill_drawing)
      (simp_all add: r1 style_fill_valueBar_other)
  have r2: "style_fill ''circle'' ''gridCell'' (update_circle_fill q)
        (gridRow (render_gridCell_fill q) fc ?names g x) =
      Some (gridRow (render_gridCell_fill q) (render_circle_fill q) ?names g x)" for x
    by (rule style_fill_gridRow)
      (simp_all add: style_fill_circle_gridCell_circle update_circle_fill_eq
        style_fill_gridCell_rect_other)
  have p2: "those (map (style_fill ''circle'' ''gridCell'' (update_circle_fill q))
        [Element ''g'' [] NoDatum as ss tx (drawing (render_gridCell_fill q) fc fb p g)]) =
      Some [Element ''g'' [] NoDatum as ss tx
        (drawing (render_gridCell_fill q) (render_circle_fill q) fb p g)]"
    by (rule style_fill_container, rule style_fill_drawing)
      (simp_all add: r2 style_fill_valueBar_other)
  have r3: "style_fill ''rect'' ''valueBar'' (update_valueBar_fill q)
        (gridRow (render_gridCell_fill q) (render_circle_fill q) ?names g x) =
      Some (gridRow (render_gridCell_fill q) (render_circle_fill q) ?names g x)" for x
    by (rule style_fill_gridRow)
      (simp_all add: style_fill_gridCell_rect_other style_fill_gridCell_circle_other)
  have p3: "those (map (style_fill ''rect'' ''valueBar'' (update_valueBar_fill q))
        [Element ''g'' [] NoDatum as ss tx
          (drawing (render_gridCell_fill q) (render_circle_fill q) fb p g)]) =
      Some [Element ''g'' [] NoDatum as ss tx
        (drawing (render_gridCell_fill q) (render_circle_fill q) (render_valueBar_fill q) p g)]"
    by (rule style_fill_container, rule style_fill_drawing)
      (simp_all add: r3 style_fill_valueBar update_valueBar_fill_eq)
  show ?thesis
    unfolding updateHighlighting_def by (simp only: p1 p2 p3 option.case)
qed

text \<open>
  Claim C10. For every model and every interaction state (selected keys \<open>ks\<close>, hovered
  key \<open>h\<close>), \<open>updateHighlighting\<close> run on a drawn chart returns normally and leaves
  exactly the scene that a full \<open>render\<close> draws for that state: every grid-cell background,
  membership circle and value bar gets the fill that \<open>render\<close> gives it, and nothing else
  changes.
\<close>

theorem recolor_equals_render:
  "updateHighlighting ((render p)\<lparr>selectedIntersections := ks, hoveredIntersection := h\<rparr>) =
   Some (render (p\<lparr>selectedIntersections := ks, hoveredIntersection := h\<rparr>))"
proof (cases "getSets (upsetMatrix p) = [] \<or> getIntersections (upsetMatrix p) = []")
  case True
  then show ?thesis by (simp add: render_def updateHighlighting_def)
next
  case False
  let ?p' = "p\<lparr>selectedIntersections := ks, hoveredIntersection := h\<rparr>"
  let ?q = "(render p)\<lparr>selectedIntersections := ks, hoveredIntersection := h\<rparr>"
  let ?as = "[(''transform'', Translate (margin_left (layout p)) (margin_top (layout p)))]"
  from False have sq: "svg ?q = [Element ''g'' [] NoDatum ?as [] None
      (drawing (render_gridCell_fill p) (render_circle_fill p) (render_valueBar_fill p) p (layout p))]"
    by (simp add: render_def)
  have sel: "selectedIntersections ?q = selectedIntersections ?p'"
    "hoveredIntersection ?q = hoveredIntersection ?p'"
    by (simp_all add: render_def)
  have q: "?q\<lparr>svg := X\<rparr> = ?p'\<lparr>svg := X\<rparr>" for X
    by (simp add: render_def)
  from False have "render ?p' = ?p'\<lparr>svg := [Element ''g'' [] NoDatum ?as [] None
      (drawing (render_gridCell_fill ?p') (render_circle_fill ?p') (render_valueBar_fill ?p') p
         (layout p))]\<rparr>"
    by (simp add: render_def layout_interaction drawing_interaction)
  then show ?thesis
    by (simp only: updateHighlighting_drawing [OF sq] q render_fills_interaction [OF sel])
qed

subsection \<open>Clicks\<close>

lemma render_keeps_state:
  "selectedIntersections (render p) = selectedIntersections p"
  "onIntersectionClick (render p) = onIntersectionClick p"
  "hoveredIntersection (render p) = hoveredIntersection p"
  "upsetMatrix (render p) = upsetMatrix p"
  "dimensions (render p) = dimensions p"
  "clickCalls (render p) = clickCalls p"
  by (simp_all add: render_def)

text \<open>
  Claim C9. When no click callback is registered, a click on a row removes the row's key
  from the selection if it is there (every occurrence) and appends it otherwise, so the
  membership of the key flips; two clicks on the same row give back the selection it
  started from, as a set of keys.
\<close>

theorem click_toggle_twice:
  assumes "\<not> onIntersectionClick p"
  shows "set (selectedIntersections (click k (click k p))) = set (selectedIntersections p) \<and>
    (k \<in> set (selectedIntersections p) \<longrightarrow>
       selectedIntersections (click k p) = filter (\<lambda>s. s \<noteq> k) (selectedIntersections p)) \<and>
    (k \<notin> set (selectedIntersections p) \<longrightarrow>
       selectedIntersections (click k p) = selectedIntersections p @ [k]) \<and>
    (k \<in> set (selectedIntersections (click k p))) = (k \<notin> set (selectedIntersections p))"
proof -
  have one: "selectedIntersections (click k q) =
      (if k \<in> set (selectedIntersections q) then filter (\<lambda>s. s \<noteq> k) (selectedIntersections q)
       else selectedIntersections q @ [k])" if "\<not> onIntersectionClick q" for q
    using that by (simp add: click_def render_keeps_state)
  have h: "\<not> onIntersectionClick (click k p)"
    using assms by (simp add: click_def render_keeps_state)
  show ?thesis
    by (auto simp: one [OF assms] one [OF h])
qed

theorem click_toggle_twice_witness:
  "selectedIntersections (click ''A'' (click ''A''
      \<lparr>dimensions = \<lparr>dim_width = 500, dim_height = 500, dim_x = 0, dim_y = 0, dim_fontSize = 16\<rparr>,
       upsetMatrix = newUpsetMatrixData, selectedIntersections = [''A'', ''B'', ''A''],
       hoveredIntersection = None, onIntersectionClick = False, clickCalls = [], svg = [],
       getComputedTextLength = (\<lambda>e. 0)\<rparr>)) = [''B'', ''A''] \<and>
   set (selectedIntersections (click ''A'' (click ''A''
      \<lparr>dimensions = \<lparr>dim_width = 500, dim_height = 500, dim_x = 0, dim_y = 0, dim_fontSize = 16\<rparr>,
       upsetMatrix = newUpsetMatrixData, selectedIntersections = [''A'', ''B'', ''A''],
       hoveredIntersection = None, onIntersectionClick = False, clickCalls = [], svg = [],
       getComputedTextLength = (\<lambda>e. 0)\<rparr>))) = set [''A'', ''B'', ''A'']"
proof -
  let ?p = "\<lparr>dimensions = \<lparr>dim_width = 500, dim_height = 500, dim_x = 0, dim_y = 0, dim_fontSize = 16\<rparr>,
       upsetMatrix = newUpsetMatrixData, selectedIntersections = [''A'', ''B'', ''A''],
       hoveredIntersection = None, onIntersectionClick = False, clickCalls = [], svg = [],
       getComputedTextLength = (\<lambda>e. 0)\<rparr>"
  have a: "\<not> onIntersectionClick ?p" by simp
  have b: "selectedIntersections (click ''A'' (click ''A'' ?p)) = [''B'', ''A'']"
    by (simp add: click_def render_def getSets_def newUpsetMatrixData_def)
  from click_toggle_twice [OF a, of "''A''"]
  have "set (selectedIntersections (click ''A'' (click ''A'' ?p))) = set (selectedIntersections ?p)"
    by blast
  with b show ?thesis by simp
qed

subsection \<open>The elements found in a drawn chart\<close>

lemma concat_map_Nil: "(\<And>x. sel (k x) = []) \<Longrightarrow> concat (map sel (map k xs)) = []"
  by (induction xs) simp_all

lemma concat_map_single: "(\<And>x. sel (k x) = [k x]) \<Longrightarrow> concat (map sel (map k xs)) = map k xs"
  by (induction xs) simp_all

lemma selectAll_setLabel:
  "selectAll t c (setLabel p g x) = (if t = ''text'' \<and> c = ''setLabel'' then [setLabel p g x] else [])"
  by (cases x) (simp add: setLabel_def Let_def)

lemma selectAll_barLabel:
  "selectAll t c (barLabel p g x) = (if t = ''text'' \<and> c = ''barLabel'' then [barLabel p g x] else [])"
  by (cases x) (simp add: barLabel_def Let_def split: option.split)

lemma selectAll_intersectionLabel:
  "t \<noteq> ''title'' \<Longrightarrow> selectAll t c (intersectionLabel p g x) =
     (if t = ''text'' \<and> c = ''intersectionLabel'' then [intersectionLabel p g x] else [])"
  by (cases x) (simp add: intersectionLabel_def)

lemma selectAll_eventRect:
  "selectAll t c (eventRect g x) = (if t = ''rect'' \<and> c = ''eventRect'' then [eventRect g x] else [])"
  by (cases x) (simp add: eventRect_def)

lemma selectAll_valueBar:
  "selectAll t c (valueBar fb g x) = (if t = ''rect'' \<and> c = ''valueBar'' then [valueBar fb g x] else [])"
  by (cases x) (simp add: valueBar_def)

lemma selectAll_gridCell_rect:
  "selectAll t c (gridCell_rect fr g i d x) =
     (if t = ''rect'' \<and> c = ''gridCell'' then [gridCell_rect fr g i d x] else [])"
  by (cases x) (simp add: gridCell_rect_def)

lemma selectAll_gridCell_circle:
  "selectAll t c (gridCell_circle fc g i d x) =
     (if t = ''circle'' \<and> c = ''gridCell'' then [gridCell_circle fc g i d x] else [])"
  by (cases x) (simp add: gridCell_circle_def)

lemma selectAll_gridRow_cells:
  "selectAll ''rect'' ''gridCell'' (gridRow fr fc names g x) =
     map (gridCell_rect fr g (fst x) (snd x)) (enumerate 0 names)"
proof (cases x)
  case (Pair i d)
  have "concat (map (selectAll ''rect'' ''gridCell'') (map (gridCell_rect fr g i d) (enumerate 0 names))) =
      map (gridCell_rect fr g i d) (enumerate 0 names)"
    by (rule concat_map_single) (simp add: selectAll_gridCell_rect)
  moreover have "concat (map (selectAll ''rect'' ''gridCell'')
      (map (gridCell_circle fc g i d) (enumerate 0 names))) = []"
    by (rule concat_map_Nil) (simp add: selectAll_gridCell_circle)
  ultimately show ?thesis using Pair by (simp add: gridRow_def)
qed

lemma selectAll_gridRow_text:
  "selectAll ''text'' c (gridRow fr fc names g x) = []"
proof (cases x)
  case (Pair i d)
  have "concat (map (selectAll ''text'' c) (map (gridCell_rect fr g i d) (enumerate 0 names))) = []"
    by (rule concat_map_Nil) (simp add: selectAll_gridCell_rect)
  moreover have "concat (map (selectAll ''text'' c)
      (map (gridCell_circle fc g i d) (enumerate 0 names))) = []"
    by (rule concat_map_Nil) (simp add: selectAll_gridCell_circle)
  ultimately show ?thesis using Pair by (simp add: gridRow_def)
qed

lemma gridCells_of_drawing:
  "concat (map (selectAll ''rect'' ''gridCell'') (drawing fr fc fb p g)) =
     concat (map (\<lambda>x. map (gridCell_rect fr g (fst x) (snd x)) (enumerate 0 (getSets (upsetMatrix p))))
        (enumerate 0 (getIntersections (upsetMatrix p))))"
proof -
  let ?names = "getSets (upsetMatrix p)" and ?rows = "getIntersections (upsetMatrix p)"
  let ?sel = "selectAll ''rect'' ''gridCell''"
  have 1: "concat (map ?sel (map (setLabel p g) (enumerate 0 ?names))) = []"
    by (rule concat_map_Nil) (simp add: selectAll_setLabel)
  have 2: "concat (map ?sel (map (gridRow fr fc ?names g) (enumerate 0 ?rows))) =
      concat (map (\<lambda>x. map (gridCell_rect fr g (fst x) (snd x)) (enumerate 0 ?names)) (enumerate 0 ?rows))"
    by (simp add: selectAll_gridRow_cells comp_def)
  have 3: "concat (map ?sel (map (valueBar fb g) (enumerate 0 ?rows))) = []"
    by (rule concat_map_Nil) (simp add: selectAll_valueBar)
  have 4: "concat (map ?sel (map (barLabel p g) (enumerate 0 ?rows))) = []"
    by (rule concat_map_Nil) (simp add: selectAll_barLabel)
  have 5: "concat (map ?sel (map (intersectionLabel p g) (enumerate 0 ?rows))) = []"
    by (rule concat_map_Nil) (simp add: selectAll_intersectionLabel)
  have 6: "concat (map ?sel (map (eventRect g) (enumerate 0 ?rows))) = []"
    by (rule concat_map_Nil) (simp add: selectAll_eventRect)
  show ?thesis
    unfolding drawing_def Let_def
    by (simp add: 1 2 3 4 5 6 del: map_map)
qed

lemma intersectionLabels_of_drawing:
  "concat (map (selectAll ''text'' ''intersectionLabel'') (drawing fr fc fb p g)) =
     map (intersectionLabel p g) (enumerate 0 (getIntersections (upsetMatrix p)))"
proof -
  let ?names = "getSets (upsetMatrix p)" and ?rows = "getIntersections (upsetMatrix p)"
  let ?sel = "selectAll ''text'' ''intersectionLabel''"
  have 1: "concat (map ?sel (map (setLabel p g) (enumerate 0 ?names))) = []"
    by (rule concat_map_Nil) (simp add: selectAll_setLabel)
  have 2: "concat (map ?sel (map (gridRow fr fc ?names g) (enumerate 0 ?rows))) = []"
    by (rule concat_map_Nil) (simp add: selectAll_gridRow_text)
  have 3: "concat (map ?sel (map (valueBar fb g) (enumerate 0 ?rows))) = []"
    by (rule concat_map_Nil) (simp add: selectAll_valueBar)
  have 4: "concat (map ?sel (map (barLabel p g) (enumerate 0 ?rows))) = []"
    by (rule concat_map_Nil) (simp add: selectAll_barLabel)
  have 5: "concat (map ?sel (map (intersectionLabel p g) (enumerate 0 ?rows))) =
      map (intersectionLabel p g) (enumerate 0 ?rows)"
    by (rule concat_map_single) (simp add: selectAll_intersectionLabel)
  have 6: "concat (map ?sel (map (eventRect g) (enumerate 0 ?rows))) = []"
    by (rule concat_map_Nil) (simp add: selectAll_eventRect)
  show ?thesis
    unfolding drawing_def Let_def
    by (simp add: 1 2 3 4 5 6 del: map_map)
qed


subsection \<open>Layout\<close>

lemma svg_render_nonempty:
  "getSets (upsetMatrix p) \<noteq> [] \<Longrightarrow> getIntersections (upsetMatrix p) \<noteq> [] \<Longrightarrow>
     svg (render p) = [Element ''g'' [] NoDatum
        [(''transform'', Translate (margin_left (layout p)) (margin_top (layout p)))] [] None
        (drawing (render_gridCell_fill p) (render_circle_fill p) (render_valueBar_fill p) p (layout p))]"
  by (simp add: render_def)

lemma layout_widths:
  "inner_width (layout p) =
     dim_width (dimensions p) - max 70 (dim_width (dimensions p) * 0.15) -
     max 60 (dim_width (dimensions p) * 0.1)"
  "dot_width (layout p) = inner_width (layout p) * 0.5"
  "cell_width (layout p) = dot_width (layout p) / real (length (getSets (upsetMatrix p)))"
  by (simp_all only: layout_def Let_def Layout.select_convs)

lemma layout_heights:
  "inner_height (layout p) = dim_height (dimensions p) - 30 - 10"
  "dot_height (layout p) = inner_height (layout p) - label_height (layout p)"
  "cell_height (layout p) =
     min 30 (dot_height (layout p) / real (length (getIntersections (upsetMatrix p))))"
  by (simp_all only: layout_def Let_def Layout.select_convs)


lemma layout_label:
  "margin_left (layout p) = max 70 (dim_width (dimensions p) * 0.15)"
  "labelFontSize (layout p) =
     min 12 (min (dim_fontSize (dimensions p))
       (max 8 (14 - d3_max_length (getSets (upsetMatrix p)) / 4)))"
  by (simp_all only: layout_def Let_def Layout.select_convs)

lemma length_gridCells:
  "length (concat (map (\<lambda>x. map (k x) (enumerate 0 names)) (enumerate 0 rows))) =
     length rows * length names"
  by (simp add: length_concat comp_def sum_list_triv)

lemma gridCell_rect_size:
  "lookup ''width'' (attrs (gridCell_rect fr g i d x)) = Some (Num (cell_width g)) \<and>
   lookup ''height'' (attrs (gridCell_rect fr g i d x)) = Some (Num (cell_height g))"
  by (cases x) (simp add: gridCell_rect_def)

text \<open>
  Claim C5. For a model with sets and intersections, the layout that \<open>render\<close> computes
  has a dot-matrix width of half the effective chart width, a cell width of exactly the
  dot-matrix width divided by the number of sets, and a row height of the minimum of 30
  and the dot-matrix height divided by the number of intersections, hence at most 30; the
  drawn grid cells, one per set and intersection, carry this width and height.
\<close>

theorem cell_geometry:
  assumes "getSets (upsetMatrix p) \<noteq> []" and "getIntersections (upsetMatrix p) \<noteq> []"
  shows "inner_width (layout p) =
      dim_width (dimensions p) - max 70 (dim_width (dimensions p) * 0.15) -
      max 60 (dim_width (dimensions p) * 0.1) \<and>
    dot_width (layout p) = inner_width (layout p) * 0.5 \<and>
    cell_width (layout p) = dot_width (layout p) / real (length (getSets (upsetMatrix p))) \<and>
    cell_height (layout p) =
      min 30 (dot_height (layout p) / real (length (getIntersections (upsetMatrix p)))) \<and>
    cell_height (layout p) \<le> 30 \<and>
    length (concat (map (selectAll ''rect'' ''gridCell'') (svg (render p)))) =
      length (getIntersections (upsetMatrix p)) * length (getSets (upsetMatrix p)) \<and>
    (\<forall>e \<in> set (concat (map (selectAll ''rect'' ''gridCell'') (svg (render p)))).
       lookup ''width'' (attrs e) = Some (Num (cell_width (layout p))) \<and>
       lookup ''height'' (attrs e) = Some (Num (cell_height (layout p))))"
proof -
  let ?cells = "concat (map (selectAll ''rect'' ''gridCell'') (svg (render p)))"
  have cells: "?cells = concat (map
      (\<lambda>x. map (gridCell_rect (render_gridCell_fill p) (layout p) (fst x) (snd x))
         (enumerate 0 (getSets (upsetMatrix p))))
      (enumerate 0 (getIntersections (upsetMatrix p))))"
    by (simp add: svg_render_nonempty [OF assms] gridCells_of_drawing)
  have len: "length ?cells =
      length (getIntersections (upsetMatrix p)) * length (getSets (upsetMatrix p))"
    unfolding cells by (rule length_gridCells)
  have size: "\<forall>e \<in> set ?cells.
       lookup ''width'' (attrs e) = Some (Num (cell_width (layout p))) \<and>
       lookup ''height'' (attrs e) = Some (Num (cell_height (layout p)))"
    unfolding cells using gridCell_rect_size by fastforce
  have h: "cell_height (layout p) \<le> 30"
    by (simp only: layout_heights(3))
  from layout_widths [of p] layout_heights(3) [of p] h len size show ?thesis
    by (intro conjI)
qed

theorem cell_geometry_witness:
  "cell_width (layout
      \<lparr>dimensions = \<lparr>dim_width = 500, dim_height = 500, dim_x = 0, dim_y = 0, dim_fontSize = 16\<rparr>,
       upsetMatrix = \<lparr>sets = [''A'', ''B''], intersections =
          [\<lparr>set_key = ''A'', value_num = Finite 3\<rparr>, \<lparr>set_key = ''A,B'', value_num = Finite 5\<rparr>]\<rparr>,
       selectedIntersections = [], hoveredIntersection = None, onIntersectionClick = False,
       clickCalls = [], svg = [], getComputedTextLength = (\<lambda>e. 0)\<rparr>) = 365 / 4 \<and>
   cell_height (layout
      \<lparr>dimensions = \<lparr>dim_width = 500, dim_height = 500, dim_x = 0, dim_y = 0, dim_fontSize = 16\<rparr>,
       upsetMatrix = \<lparr>sets = [''A'', ''B''], intersections =
          [\<lparr>set_key = ''A'', value_num = Finite 3\<rparr>, \<lparr>set_key = ''A,B'', value_num = Finite 5\<rparr>]\<rparr>,
       selectedIntersections = [], hoveredIntersection = None, onIntersectionClick = False,
       clickCalls = [], svg = [], getComputedTextLength = (\<lambda>e. 0)\<rparr>) \<le> 30"
proof -
  let ?p = "\<lparr>dimensions = \<lparr>dim_width = 500, dim_height = 500, dim_x = 0, dim_y = 0, dim_fontSize = 16\<rparr>,
       upsetMatrix = \<lparr>sets = [''A'', ''B''], intersections =
          [\<lparr>set_key = ''A'', value_num = Finite 3\<rparr>, \<lparr>set_key = ''A,B'', value_num = Finite 5\<rparr>]\<rparr>,
       selectedIntersections = [], hoveredIntersection = None, onIntersectionClick = False,
       clickCalls = [], svg = [], getComputedTextLength = (\<lambda>e. 0)\<rparr>"
  have a: "getSets (upsetMatrix ?p) \<noteq> []" "getIntersections (upsetMatrix ?p) \<noteq> []"
    by (simp_all add: getSets_def getIntersections_def)
  note g = cell_geometry [OF a]
  from g have w: "cell_width (layout ?p) =
      (dim_width (dimensions ?p) - max 70 (dim_width (dimensions ?p) * 0.15) -
       max 60 (dim_width (dimensions ?p) * 0.1)) * 0.5 / real (length (getSets (upsetMatrix ?p)))"
    by (elim conjE) (simp only:)
  have "cell_width (layout ?p) = 365 / 4"
    unfolding w by (simp add: getSets_def)
  moreover from g have "cell_height (layout ?p) \<le> 30" by (elim conjE)
  ultimately show ?thesis by (rule conjI)
qed


lemma length_drawing:
  "length (drawing fr fc fb p g) =
     2 + length (getSets (upsetMatrix p)) + 5 * length (getIntersections (upsetMatrix p))"
  by (simp add: drawing_def Let_def)

text \<open>
  Claim C6, as amended. \<open>render\<close> skips drawing exactly when the model has no set or no
  intersection. For every other model it draws the whole chart (the container group with
  its frame, labels, rows, bars, axis and event rectangles), whatever the effective chart
  width and height are: the source has no test of them.
\<close>

theorem render_draws_unless_empty:
  "(svg (render p) = []) =
     (getSets (upsetMatrix p) = [] \<or> getIntersections (upsetMatrix p) = []) \<and>
   (getSets (upsetMatrix p) \<noteq> [] \<and> getIntersections (upsetMatrix p) \<noteq> [] \<longrightarrow>
      map tag (svg (render p)) = [''g''] \<and>
      length (concat (map children (svg (render p)))) =
        2 + length (getSets (upsetMatrix p)) + 5 * length (getIntersections (upsetMatrix p)) \<and>
      length (concat (map (selectAll ''rect'' ''gridCell'') (svg (render p)))) =
        length (getIntersections (upsetMatrix p)) * length (getSets (upsetMatrix p)))"
proof (cases "getSets (upsetMatrix p) = [] \<or> getIntersections (upsetMatrix p) = []")
  case True
  then show ?thesis by (auto simp: render_def)
next
  case False
  then have ne: "getSets (upsetMatrix p) \<noteq> []" "getIntersections (upsetMatrix p) \<noteq> []"
    by simp_all
  have "length (concat (map (selectAll ''rect'' ''gridCell'') (svg (render p)))) =
        length (getIntersections (upsetMatrix p)) * length (getSets (upsetMatrix p))"
    by (simp add: svg_render_nonempty [OF ne] gridCells_of_drawing length_gridCells)
  with ne show ?thesis
    by (simp add: svg_render_nonempty [OF ne] length_drawing)
qed

theorem render_draws_unless_empty_witness:
  "inner_width (layout
      \<lparr>dimensions = \<lparr>dim_width = 100, dim_height = 30, dim_x = 0, dim_y = 0, dim_fontSize = 16\<rparr>,
       upsetMatrix = \<lparr>sets = [''A''], intersections = [\<lparr>set_key = ''A'', value_num = Finite 1\<rparr>]\<rparr>,
       selectedIntersections = [], hoveredIntersection = None, onIntersectionClick = False,
       clickCalls = [], svg = [], getComputedTextLength = (\<lambda>e. 0)\<rparr>) = - 30 \<and>
   length (concat (map children (svg (render
      \<lparr>dimensions = \<lparr>dim_width = 100, dim_height = 30, dim_x = 0, dim_y = 0, dim_fontSize = 16\<rparr>,
       upsetMatrix = \<lparr>sets = [''A''], intersections = [\<lparr>set_key = ''A'', value_num = Finite 1\<rparr>]\<rparr>,
       selectedIntersections = [], hoveredIntersection = None, onIntersectionClick = False,
       clickCalls = [], svg = [], getComputedTextLength = (\<lambda>e. 0)\<rparr>)))) = 8"
proof -
  let ?p = "\<lparr>dimensions = \<lparr>dim_width = 100, dim_height = 30, dim_x = 0, dim_y = 0, dim_fontSize = 16\<rparr>,
       upsetMatrix = \<lparr>sets = [''A''], intersections = [\<lparr>set_key = ''A'', value_num = Finite 1\<rparr>]\<rparr>,
       selectedIntersections = [], hoveredIntersection = None, onIntersectionClick = False,
       clickCalls = [], svg = [], getComputedTextLength = (\<lambda>e. 0)\<rparr>"
  have a: "getSets (upsetMatrix ?p) \<noteq> [] \<and> getIntersections (upsetMatrix ?p) \<noteq> []"
    by (simp add: getSets_def getIntersections_def)
  have w: "inner_width (layout ?p) = - 30"
    by (simp add: layout_widths(1))
  from render_draws_unless_empty [of ?p, THEN conjunct2, rule_format, OF a]
  have "length (concat (map children (svg (render ?p)))) = 8"
    by (simp add: getSets_def getIntersections_def)
  with w show ?thesis by (rule conjI)
qed

text \<open>
  A chart of 100 by 30 pixels over one set and one intersection has the effective width
  \<open>-30\<close> and the effective height \<open>-10\<close>; \<open>render\<close> draws it all the same, while it draws
  nothing for the empty model.
\<close>

theorem degenerate_geometry_counterexample:
  "getSets (upsetMatrix
      \<lparr>dimensions = \<lparr>dim_width = 100, dim_height = 30, dim_x = 0, dim_y = 0, dim_fontSize = 16\<rparr>,
       upsetMatrix = \<lparr>sets = [''A''], intersections = [\<lparr>set_key = ''A'', value_num = Finite 1\<rparr>]\<rparr>,
       selectedIntersections = [], hoveredIntersection = None, onIntersectionClick = False,
       clickCalls = [], svg = [], getComputedTextLength = (\<lambda>e. 0)\<rparr>) = [''A''] \<and>
   inner_width (layout
      \<lparr>dimensions = \<lparr>dim_width = 100, dim_height = 30, dim_x = 0, dim_y = 0, dim_fontSize = 16\<rparr>,
       upsetMatrix = \<lparr>sets = [''A''], intersections = [\<lparr>set_key = ''A'', value_num = Finite 1\<rparr>]\<rparr>,
       selectedIntersections = [], hoveredIntersection = None, onIntersectionClick = False,
       clickCalls = [], svg = [], getComputedTextLength = (\<lambda>e. 0)\<rparr>) = - 30 \<and>
   inner_height (layout
      \<lparr>dimensions = \<lparr>dim_width = 100, dim_height = 30, dim_x = 0, dim_y = 0, dim_fontSize = 16\<rparr>,
       upsetMatrix = \<lparr>sets = [''A''], intersections = [\<lparr>set_key = ''A'', value_num = Finite 1\<rparr>]\<rparr>,
       selectedIntersections = [], hoveredIntersection = None, onIntersectionClick = False,
       clickCalls = [], svg = [], getComputedTextLength = (\<lambda>e. 0)\<rparr>) = - 10 \<and>
   map tag (svg (render
      \<lparr>dimensions = \<lparr>dim_width = 100, dim_height = 30, dim_x = 0, dim_y = 0, dim_fontSize = 16\<rparr>,
       upsetMatrix = \<lparr>sets = [''A''], intersections = [\<lparr>set_key = ''A'', value_num = Finite 1\<rparr>]\<rparr>,
       selectedIntersections = [], hoveredIntersection = None, onIntersectionClick = False,
       clickCalls = [], svg = [], getComputedTextLength = (\<lambda>e. 0)\<rparr>)) = [''g''] \<and>
   svg (render
      \<lparr>dimensions = \<lparr>dim_width = 100, dim_height = 30, dim_x = 0, dim_y = 0, dim_fontSize = 16\<rparr>,
       upsetMatrix = newUpsetMatrixData,
       selectedIntersections = [], hoveredIntersection = None, onIntersectionClick = False,
       clickCalls = [], svg = [], getComputedTextLength = (\<lambda>e. 0)\<rparr>) = []"
  by (simp add: layout_widths(1) layout_heights(1) render_def getSets_def getIntersections_def
      newUpsetMatrixData_def)

subsection \<open>Row labels\<close>

lemma fl_015: "fl 0.15 = 5404319552844595 / 2 ^ 55"
  by (subst fl_eval [where k = "- 3"]) (simp_all add: pow2_def roundTiesToEven_def Let_def)

lemma fl_06: "fl 0.6 = 5404319552844595 / 2 ^ 53"
  by (subst fl_eval [where k = "- 1"]) (simp_all add: pow2_def roundTiesToEven_def Let_def)

lemma fl_small_int: "\<bar>n\<bar> \<le> 2 ^ 53 \<Longrightarrow> \<lfloor>fl (of_int n)\<rfloor> = n"
  by (simp add: fl_of_int)

text \<open>The limit at width 516, font size 16 and a longest set name of 13 characters.\<close>

lemma maxDisplayLength_516:
  "maxDisplayLength
      \<lparr>dimensions = \<lparr>dim_width = 516, dim_height = 500, dim_x = 0, dim_y = 0, dim_fontSize = 16\<rparr>,
       upsetMatrix = \<lparr>sets = [''ABCDEFGHIJKLM'', ''ABCDEFGHIJ''],
          intersections = [\<lparr>set_key = ''ABCDEFGHIJKLM'', value_num = Finite 1\<rparr>,
                           \<lparr>set_key = ''ABCDEFGHIJ'', value_num = Finite 2\<rparr>]\<rparr>,
       selectedIntersections = [], hoveredIntersection = None, onIntersectionClick = False,
       clickCalls = [], svg = [], getComputedTextLength = (\<lambda>e. 0)\<rparr> = Finite 9"
proof -
  let ?p = "\<lparr>dimensions = \<lparr>dim_width = 516, dim_height = 500, dim_x = 0, dim_y = 0, dim_fontSize = 16\<rparr>,
       upsetMatrix = \<lparr>sets = [''ABCDEFGHIJKLM'', ''ABCDEFGHIJ''],
          intersections = [\<lparr>set_key = ''ABCDEFGHIJKLM'', value_num = Finite 1\<rparr>,
                           \<lparr>set_key = ''ABCDEFGHIJ'', value_num = Finite 2\<rparr>]\<rparr>,
       selectedIntersections = [], hoveredIntersection = None, onIntersectionClick = False,
       clickCalls = [], svg = [], getComputedTextLength = (\<lambda>e. 0)\<rparr>"
  have b: "fl (516 * (5404319552844595 / 2 ^ 55)) = 5446540799351193 / 2 ^ 46"
    by (subst fl_eval [where k = 6]) (simp_all add: pow2_def roundTiesToEven_def Let_def)
  have ml: "marginLeft_double ?p = 5446540799351193 / 2 ^ 46"
  proof -
    have "marginLeft_double ?p = max 70 (fl (516 * fl 0.15))"
      by (simp add: marginLeft_double_def)
    also have "\<dots> = max 70 (5446540799351193 / 2 ^ 46)"
      by (simp only: fl_015 b)
    also have "\<dots> = 5446540799351193 / 2 ^ 46" by simp
    finally show ?thesis .
  qed
  have c: "fl (13 / 4) = 13 / 4"
    by (subst fl_eval [where k = 1]) (simp_all add: pow2_def roundTiesToEven_def Let_def)
  have d: "fl (14 - 13 / 4) = 43 / 4"
    by (subst fl_eval [where k = 3]) (simp_all add: pow2_def roundTiesToEven_def Let_def)
  have lfs: "labelFontSize_double ?p = 43 / 4"
  proof -
    have "labelFontSize_double ?p = min 12 (min 16 (max 8 (fl (14 - fl (13 / 4)))))"
      by (simp add: labelFontSize_double_def d3_max_length_def getSets_def)
    also have "\<dots> = min 12 (min 16 (max 8 (43 / 4)))"
      by (simp only: c d)
    also have "\<dots> = 43 / 4" by simp
    finally show ?thesis .
  qed
  have g: "fl (43 / 4 * (5404319552844595 / 2 ^ 53)) = 7262054399134925 / 2 ^ 50"
    by (subst fl_eval [where k = 2]) (simp_all add: pow2_def roundTiesToEven_def Let_def)
  have q: "fl (5446540799351193 / 2 ^ 46 / (7262054399134925 / 2 ^ 50)) =
      6755399441055743 / 2 ^ 49"
    by (subst fl_eval [where k = 3]) (simp_all add: pow2_def roundTiesToEven_def Let_def)
  have "maxDisplayLength ?p =
     (let divisor = 7262054399134925 / 2 ^ 50
      in if divisor = (0::real)
         then (if (43 / 4 :: real) < 0 then MinusInfinity else PlusInfinity)
         else
           (let q = fl (5446540799351193 / 2 ^ 46 / divisor)
            in if 2 ^ 1024 \<le> q then PlusInfinity
               else if q \<le> - (2 ^ 1024) then MinusInfinity
               else Finite \<lfloor>fl (of_int \<lfloor>q\<rfloor> - 2)\<rfloor>))"
    by (simp only: maxDisplayLength_def ml lfs fl_06 g)
  also have "\<dots> = Finite \<lfloor>fl (of_int \<lfloor>6755399441055743 / 2 ^ 49 :: real\<rfloor> - 2)\<rfloor>"
    by (simp only: Let_def q) simp
  also have "\<lfloor>6755399441055743 / 2 ^ 49 :: real\<rfloor> = 11" by simp
  also have "real_of_int 11 - 2 = of_int 9" by simp
  also have "\<lfloor>fl (of_int 9)\<rfloor> = 9" by (rule fl_small_int) simp
  finally show ?thesis .
qed


text \<open>The limit at width 500, font size -4 and a longest set name of 11 characters.\<close>

lemma maxDisplayLength_negative_font:
  "maxDisplayLength
      \<lparr>dimensions = \<lparr>dim_width = 500, dim_height = 500, dim_x = 0, dim_y = 0, dim_fontSize = - 4\<rparr>,
       upsetMatrix = \<lparr>sets = [''LongSetName''],
          intersections = [\<lparr>set_key = ''LongSetName'', value_num = Finite 3\<rparr>]\<rparr>,
       selectedIntersections = [], hoveredIntersection = None, onIntersectionClick = False,
       clickCalls = [], svg = [], getComputedTextLength = (\<lambda>e. 0)\<rparr> = Finite (- 34)"
proof -
  let ?p = "\<lparr>dimensions = \<lparr>dim_width = 500, dim_height = 500, dim_x = 0, dim_y = 0, dim_fontSize = - 4\<rparr>,
       upsetMatrix = \<lparr>sets = [''LongSetName''],
          intersections = [\<lparr>set_key = ''LongSetName'', value_num = Finite 3\<rparr>]\<rparr>,
       selectedIntersections = [], hoveredIntersection = None, onIntersectionClick = False,
       clickCalls = [], svg = [], getComputedTextLength = (\<lambda>e. 0)\<rparr>"
  have b: "fl (500 * (5404319552844595 / 2 ^ 55)) = 75"
    by (subst fl_eval [where k = 6]) (simp_all add: pow2_def roundTiesToEven_def Let_def)
  have ml: "marginLeft_double ?p = 75"
  proof -
    have "marginLeft_double ?p = max 70 (fl (500 * fl 0.15))"
      by (simp add: marginLeft_double_def)
    also have "\<dots> = max 70 75"
      by (simp only: fl_015 b)
    also have "\<dots> = (75::real)" by simp
    finally show ?thesis .
  qed
  have lfs: "labelFontSize_double ?p = - 4"
    by (simp add: labelFontSize_double_def)
  have g: "fl (- 4 * (5404319552844595 / 2 ^ 53)) = - (5404319552844595 / 2 ^ 51)"
    by (subst fl_eval [where k = 1]) (simp_all add: pow2_def roundTiesToEven_def Let_def)
  have q: "fl (75 / - (5404319552844595 / 2 ^ 51)) = - (125 / 4)"
    by (subst fl_eval [where k = 4]) (simp_all add: pow2_def roundTiesToEven_def Let_def)
  have "maxDisplayLength ?p =
     (let divisor = - (5404319552844595 / 2 ^ 51)
      in if divisor = (0::real)
         then (if (- 4 :: real) < 0 then MinusInfinity else PlusInfinity)
         else
           (let q = fl (75 / divisor)
            in if 2 ^ 1024 \<le> q then PlusInfinity
               else if q \<le> - (2 ^ 1024) then MinusInfinity
               else Finite \<lfloor>fl (of_int \<lfloor>q\<rfloor> - 2)\<rfloor>))"
    by (simp only: maxDisplayLength_def ml lfs fl_06 g)
  also have "\<dots> = Finite \<lfloor>fl (of_int \<lfloor>- (125 / 4) :: real\<rfloor> - 2)\<rfloor>"
    by (simp only: Let_def q) simp
  also have "\<lfloor>- (125 / 4) :: real\<rfloor> = - 32" by simp
  also have "real_of_int (- 32) - 2 = of_int (- 34)" by simp
  also have "\<lfloor>fl (of_int (- 34))\<rfloor> = - 34" by (rule fl_small_int) simp
  finally show ?thesis .
qed

lemma intersectionLabel_parts:
  "bound (intersectionLabel p g (i, d)) = RowDatum d"
  "content (intersectionLabel p g (i, d)) = Some (Str (intersectionLabel_text (maxDisplayLength p) d))"
  "map tag (children (intersectionLabel p g (i, d))) = [''title'']"
  "map content (children (intersectionLabel p g (i, d))) = [Some (Str (set_key d))]"
  by (simp_all add: intersectionLabel_def)

lemma intersectionLabels_of_render:
  assumes "getSets (upsetMatrix p) \<noteq> []" and "i < length (getIntersections (upsetMatrix p))"
  shows "length (concat (map (selectAll ''text'' ''intersectionLabel'') (svg (render p)))) = length (getIntersections (upsetMatrix p))"
    and "concat (map (selectAll ''text'' ''intersectionLabel'') (svg (render p))) ! i =
      intersectionLabel p (layout p) (i, getIntersections (upsetMatrix p) ! i)"
proof -
  let ?rows = "getIntersections (upsetMatrix p)"
  from assms(2) have ne: "?rows \<noteq> []" by auto
  have labels: "concat (map (selectAll ''text'' ''intersectionLabel'') (svg (render p))) = map (intersectionLabel p (layout p)) (enumerate 0 ?rows)"
    by (simp add: svg_render_nonempty [OF assms(1) ne] intersectionLabels_of_drawing)
  show "length (concat (map (selectAll ''text'' ''intersectionLabel'') (svg (render p)))) = length ?rows"
    unfolding labels by simp
  show "concat (map (selectAll ''text'' ''intersectionLabel'') (svg (render p))) ! i = intersectionLabel p (layout p) (i, ?rows ! i)"
    unfolding labels using assms(2) by (simp add: nth_enumerate_eq)
qed

text \<open>
  Claim C7, as amended. With \<open>maxDisplayLength\<close> the limit that the source computes in
  doubles, \<open>floor(leftMargin / (labelFontSize * 0.6)) - 2\<close>, the label that \<open>render\<close> draws
  left of row \<open>i\<close> is the full combination key when the key has at most
  \<open>maxDisplayLength\<close> characters; otherwise it is the first \<open>maxDisplayLength - 3\<close> characters
  of the key (none when that is negative) followed by the three dots of the ellipsis, which
  is \<open>maxDisplayLength\<close> characters in all when the limit is at least 3. The only child of
  the label is the \<open>title\<close> element holding the full key.
\<close>

theorem intersection_label_truncation:
  assumes "getSets (upsetMatrix p) \<noteq> []"
    and "i < length (getIntersections (upsetMatrix p))"
  shows "length (concat (map (selectAll ''text'' ''intersectionLabel'') (svg (render p)))) = length (getIntersections (upsetMatrix p)) \<and>
    bound (concat (map (selectAll ''text'' ''intersectionLabel'') (svg (render p))) ! i) = RowDatum (getIntersections (upsetMatrix p) ! i) \<and>
    (case maxDisplayLength p of
       PlusInfinity \<Rightarrow>
         content (concat (map (selectAll ''text'' ''intersectionLabel'') (svg (render p))) ! i) =
         Some (Str (set_key (getIntersections (upsetMatrix p) ! i)))
     | MinusInfinity \<Rightarrow>
         content (concat (map (selectAll ''text'' ''intersectionLabel'') (svg (render p))) ! i) = Some (Str ''...'')
     | Finite n \<Rightarrow>
         (int (length (set_key (getIntersections (upsetMatrix p) ! i))) \<le> n \<longrightarrow>
            content (concat (map (selectAll ''text'' ''intersectionLabel'') (svg (render p))) ! i) =
            Some (Str (set_key (getIntersections (upsetMatrix p) ! i)))) \<and>
         (n < int (length (set_key (getIntersections (upsetMatrix p) ! i))) \<longrightarrow>
            content (concat (map (selectAll ''text'' ''intersectionLabel'') (svg (render p))) ! i) =
            Some (Str (take (nat (n - 3)) (set_key (getIntersections (upsetMatrix p) ! i)) @ ''...'')) \<and>
            (3 \<le> n \<longrightarrow>
               int (length (take (nat (n - 3)) (set_key (getIntersections (upsetMatrix p) ! i)) @ ''...'')) =
               n))) \<and>
    map tag (children (concat (map (selectAll ''text'' ''intersectionLabel'') (svg (render p))) ! i)) = [''title''] \<and>
    map content (children (concat (map (selectAll ''text'' ''intersectionLabel'') (svg (render p))) ! i)) =
      [Some (Str (set_key (getIntersections (upsetMatrix p) ! i)))]"
proof -
  let ?rows = "getIntersections (upsetMatrix p)"
  let ?labels = "concat (map (selectAll ''text'' ''intersectionLabel'') (svg (render p)))"
  let ?key = "set_key (?rows ! i)"
  note r = intersectionLabels_of_render [OF assms]
  have b: "bound (?labels ! i) = RowDatum (?rows ! i)"
    and c: "content (?labels ! i) = Some (Str (intersectionLabel_text (maxDisplayLength p) (?rows ! i)))"
    and t: "map tag (children (?labels ! i)) = [''title'']"
    and u: "map content (children (?labels ! i)) = [Some (Str ?key)]"
    unfolding r(2) by (rule intersectionLabel_parts)+
  have shown: "case maxDisplayLength p of
       PlusInfinity \<Rightarrow> content (?labels ! i) = Some (Str ?key)
     | MinusInfinity \<Rightarrow> content (?labels ! i) = Some (Str ''...'')
     | Finite n \<Rightarrow>
         (int (length ?key) \<le> n \<longrightarrow> content (?labels ! i) = Some (Str ?key)) \<and>
         (n < int (length ?key) \<longrightarrow>
            content (?labels ! i) = Some (Str (take (nat (n - 3)) ?key @ ''...'')) \<and>
            (3 \<le> n \<longrightarrow> int (length (take (nat (n - 3)) ?key @ ''...'')) = n))"
    unfolding c by (simp add: intersectionLabel_text_def split: number.split)
  from r(1) b shown t u show ?thesis by (intro conjI)
qed

theorem intersection_label_truncation_witness:
  "maxDisplayLength
      \<lparr>dimensions = \<lparr>dim_width = 516, dim_height = 500, dim_x = 0, dim_y = 0, dim_fontSize = 16\<rparr>,
       upsetMatrix = \<lparr>sets = [''ABCDEFGHIJKLM'', ''ABCDEFGHIJ''],
          intersections = [\<lparr>set_key = ''ABCDEFGHIJKLM'', value_num = Finite 1\<rparr>,
                           \<lparr>set_key = ''ABCDEFGHIJ'', value_num = Finite 2\<rparr>]\<rparr>,
       selectedIntersections = [], hoveredIntersection = None, onIntersectionClick = False,
       clickCalls = [], svg = [], getComputedTextLength = (\<lambda>e. 0)\<rparr> = Finite 9 \<and>
   content (concat (map (selectAll ''text'' ''intersectionLabel'') (svg (render
      \<lparr>dimensions = \<lparr>dim_width = 516, dim_height = 500, dim_x = 0, dim_y = 0, dim_fontSize = 16\<rparr>,
       upsetMatrix = \<lparr>sets = [''ABCDEFGHIJKLM'', ''ABCDEFGHIJ''],
          intersections = [\<lparr>set_key = ''ABCDEFGHIJKLM'', value_num = Finite 1\<rparr>,
                           \<lparr>set_key = ''ABCDEFGHIJ'', value_num = Finite 2\<rparr>]\<rparr>,
       selectedIntersections = [], hoveredIntersection = None, onIntersectionClick = False,
       clickCalls = [], svg = [], getComputedTextLength = (\<lambda>e. 0)\<rparr>))) ! 1) = Some (Str ''ABCDEF...'')"
proof -
  let ?p = "\<lparr>dimensions = \<lparr>dim_width = 516, dim_height = 500, dim_x = 0, dim_y = 0, dim_fontSize = 16\<rparr>,
       upsetMatrix = \<lparr>sets = [''ABCDEFGHIJKLM'', ''ABCDEFGHIJ''],
          intersections = [\<lparr>set_key = ''ABCDEFGHIJKLM'', value_num = Finite 1\<rparr>,
                           \<lparr>set_key = ''ABCDEFGHIJ'', value_num = Finite 2\<rparr>]\<rparr>,
       selectedIntersections = [], hoveredIntersection = None, onIntersectionClick = False,
       clickCalls = [], svg = [], getComputedTextLength = (\<lambda>e. 0)\<rparr>"
  have a: "getSets (upsetMatrix ?p) \<noteq> []" "1 < length (getIntersections (upsetMatrix ?p))"
    by (simp_all add: getSets_def getIntersections_def)
  have k: "set_key (getIntersections (upsetMatrix ?p) ! 1) = ''ABCDEFGHIJ''"
    by (simp add: getIntersections_def)
  note M = maxDisplayLength_516
  from intersection_label_truncation [OF a]
  have "case maxDisplayLength ?p of
       PlusInfinity \<Rightarrow>
         content (concat (map (selectAll ''text'' ''intersectionLabel'') (svg (render ?p))) ! 1) =
         Some (Str (set_key (getIntersections (upsetMatrix ?p) ! 1)))
     | MinusInfinity \<Rightarrow>
         content (concat (map (selectAll ''text'' ''intersectionLabel'') (svg (render ?p))) ! 1) = Some (Str ''...'')
     | Finite n \<Rightarrow>
         (int (length (set_key (getIntersections (upsetMatrix ?p) ! 1))) \<le> n \<longrightarrow>
            content (concat (map (selectAll ''text'' ''intersectionLabel'') (svg (render ?p))) ! 1) =
            Some (Str (set_key (getIntersections (upsetMatrix ?p) ! 1)))) \<and>
         (n < int (length (set_key (getIntersections (upsetMatrix ?p) ! 1))) \<longrightarrow>
            content (concat (map (selectAll ''text'' ''intersectionLabel'') (svg (render ?p))) ! 1) =
            Some (Str (take (nat (n - 3)) (set_key (getIntersections (upsetMatrix ?p) ! 1)) @ ''...'')) \<and>
            (3 \<le> n \<longrightarrow>
               int (length (take (nat (n - 3)) (set_key (getIntersections (upsetMatrix ?p) ! 1)) @ ''...'')) =
               n))"
    by (elim conjE)
  then have "content (concat (map (selectAll ''text'' ''intersectionLabel'') (svg (render ?p))) ! 1) = Some (Str ''ABCDEF...'')"
    unfolding M k by (simp add: numeral_eq_Suc)
  with M show ?thesis by (rule conjI)
qed

text \<open>
  At width 516 and font size 16 the limit is 9, and the key of 10 characters is drawn as
  its first 6 characters and the ellipsis, not as its first 9. At font size \<open>-4\<close> the
  limit is \<open>-34\<close>, and the label is the bare ellipsis of 3 characters.
\<close>

theorem label_truncation_counterexample:
  "maxDisplayLength
      \<lparr>dimensions = \<lparr>dim_width = 516, dim_height = 500, dim_x = 0, dim_y = 0, dim_fontSize = 16\<rparr>,
       upsetMatrix = \<lparr>sets = [''ABCDEFGHIJKLM'', ''ABCDEFGHIJ''],
          intersections = [\<lparr>set_key = ''ABCDEFGHIJKLM'', value_num = Finite 1\<rparr>,
                           \<lparr>set_key = ''ABCDEFGHIJ'', value_num = Finite 2\<rparr>]\<rparr>,
       selectedIntersections = [], hoveredIntersection = None, onIntersectionClick = False,
       clickCalls = [], svg = [], getComputedTextLength = (\<lambda>e. 0)\<rparr> = Finite 9 \<and>
   content (concat (map (selectAll ''text'' ''intersectionLabel'') (svg (render
      \<lparr>dimensions = \<lparr>dim_width = 516, dim_height = 500, dim_x = 0, dim_y = 0, dim_fontSize = 16\<rparr>,
       upsetMatrix = \<lparr>sets = [''ABCDEFGHIJKLM'', ''ABCDEFGHIJ''],
          intersections = [\<lparr>set_key = ''ABCDEFGHIJKLM'', value_num = Finite 1\<rparr>,
                           \<lparr>set_key = ''ABCDEFGHIJ'', value_num = Finite 2\<rparr>]\<rparr>,
       selectedIntersections = [], hoveredIntersection = None, onIntersectionClick = False,
       clickCalls = [], svg = [], getComputedTextLength = (\<lambda>e. 0)\<rparr>))) ! 1) = Some (Str ''ABCDEF...'') \<and>
   ''ABCDEF...'' \<noteq> take 9 ''ABCDEFGHIJ'' @ ''...'' \<and>
   maxDisplayLength
      \<lparr>dimensions = \<lparr>dim_width = 500, dim_height = 500, dim_x = 0, dim_y = 0, dim_fontSize = - 4\<rparr>,
       upsetMatrix = \<lparr>sets = [''LongSetName''],
          intersections = [\<lparr>set_key = ''LongSetName'', value_num = Finite 3\<rparr>]\<rparr>,
       selectedIntersections = [], hoveredIntersection = None, onIntersectionClick = False,
       clickCalls = [], svg = [], getComputedTextLength = (\<lambda>e. 0)\<rparr> = Finite (- 34) \<and>
   content (concat (map (selectAll ''text'' ''intersectionLabel'') (svg (render
      \<lparr>dimensions = \<lparr>dim_width = 500, dim_height = 500, dim_x = 0, dim_y = 0, dim_fontSize = - 4\<rparr>,
       upsetMatrix = \<lparr>sets = [''LongSetName''],
          intersections = [\<lparr>set_key = ''LongSetName'', value_num = Finite 3\<rparr>]\<rparr>,
       selectedIntersections = [], hoveredIntersection = None, onIntersectionClick = False,
       clickCalls = [], svg = [], getComputedTextLength = (\<lambda>e. 0)\<rparr>))) ! 0) = Some (Str ''...'')"
proof -
  let ?p = "\<lparr>dimensions = \<lparr>dim_width = 516, dim_height = 500, dim_x = 0, dim_y = 0, dim_fontSize = 16\<rparr>,
       upsetMatrix = \<lparr>sets = [''ABCDEFGHIJKLM'', ''ABCDEFGHIJ''],
          intersections = [\<lparr>set_key = ''ABCDEFGHIJKLM'', value_num = Finite 1\<rparr>,
                           \<lparr>set_key = ''ABCDEFGHIJ'', value_num = Finite 2\<rparr>]\<rparr>,
       selectedIntersections = [], hoveredIntersection = None, onIntersectionClick = False,
       clickCalls = [], svg = [], getComputedTextLength = (\<lambda>e. 0)\<rparr>"
  let ?q = "\<lparr>dimensions = \<lparr>dim_width = 500, dim_height = 500, dim_x = 0, dim_y = 0, dim_fontSize = - 4\<rparr>,
       upsetMatrix = \<lparr>sets = [''LongSetName''],
          intersections = [\<lparr>set_key = ''LongSetName'', value_num = Finite 3\<rparr>]\<rparr>,
       selectedIntersections = [], hoveredIntersection = None, onIntersectionClick = False,
       clickCalls = [], svg = [], getComputedTextLength = (\<lambda>e. 0)\<rparr>"
  have a: "getSets (upsetMatrix ?p) \<noteq> []" "1 < length (getIntersections (upsetMatrix ?p))"
    by (simp_all add: getSets_def getIntersections_def)
  have b: "getSets (upsetMatrix ?q) \<noteq> []" "0 < length (getIntersections (upsetMatrix ?q))"
    by (simp_all add: getSets_def getIntersections_def)
  have 1: "content (concat (map (selectAll ''text'' ''intersectionLabel'') (svg (render ?p))) ! 1) =
      Some (Str ''ABCDEF...'')"
    unfolding intersectionLabels_of_render(2) [OF a] intersectionLabel_parts maxDisplayLength_516
    by (simp add: intersectionLabel_text_def getIntersections_def numeral_eq_Suc)
  have 2: "content (concat (map (selectAll ''text'' ''intersectionLabel'') (svg (render ?q))) ! 0) =
      Some (Str ''...'')"
    unfolding intersectionLabels_of_render(2) [OF b] intersectionLabel_parts
      maxDisplayLength_negative_font
    by (simp add: intersectionLabel_text_def getIntersections_def)
  have 3: "''ABCDEF...'' \<noteq> take 9 ''ABCDEFGHIJ'' @ ''...''"
    by (simp add: numeral_eq_Suc)
  from maxDisplayLength_516 1 3 maxDisplayLength_negative_font 2 show ?thesis
    by (intro conjI)
qed

end
